theory Spec2Isabelle
  imports Main
begin

section \<open>Strings and formatting\<close>

text \<open>
  Go strings are byte sequences; they are modelled as \<open>string\<close> (a list of 8-bit
  characters). The helpers below are the library calls of the generator:
  \<open>fmt.Sprintf("%d", n)\<close>, \<open>strconv.FormatBool\<close>, \<open>strings.Join\<close>,
  \<open>strings.ReplaceAll(s, ":", "")\<close>, \<open>strings.ToLower\<close>, \<open>strings.HasPrefix\<close> and
  \<open>strings.Contains\<close>.
\<close>

definition digit :: "nat \<Rightarrow> char" where
  "digit d = ''0123456789'' ! d"

fun fmtNat :: "nat \<Rightarrow> string" where
  "fmtNat n = (if n < 10 then [digit n] else fmtNat (n div 10) @ [digit (n mod 10)])"

declare fmtNat.simps [simp del]

text \<open>\<open>%d\<close> of a Go \<open>int\<close>: a minus sign for a negative number, then the decimal digits.\<close>

definition fmtInt :: "int \<Rightarrow> string" where
  "fmtInt n = (if n < 0 then CHR ''-'' # fmtNat (nat (- n)) else fmtNat (nat n))"

definition FormatBool :: "bool \<Rightarrow> string" where
  "FormatBool b = (if b then ''true'' else ''false'')"

fun Join :: "string list \<Rightarrow> string \<Rightarrow> string" where
  "Join [] sep = []"
| "Join [x] sep = x"
| "Join (x # y # xs) sep = x @ sep @ Join (y # xs) sep"

text \<open>\<open>strings.ReplaceAll(s, ":", "")\<close> deletes every colon.\<close>

definition stripColons :: "string \<Rightarrow> string" where
  "stripColons s = filter (\<lambda>c. c \<noteq> CHR '':'') s"

text \<open>
  \<open>strings.ToLower\<close> on ASCII text (hardware addresses are hexadecimal digits and
  colons): the letters \<open>A\<close> to \<open>Z\<close> are mapped to \<open>a\<close> to \<open>z\<close>, every other byte is kept.
\<close>

definition lowerChar :: "char \<Rightarrow> char" where
  "lowerChar c =
     (case map_of (zip ''ABCDEFGHIJKLMNOPQRSTUVWXYZ'' ''abcdefghijklmnopqrstuvwxyz'') c of
        Some l \<Rightarrow> l
      | None \<Rightarrow> c)"

definition ToLower :: "string \<Rightarrow> string" where
  "ToLower s = map lowerChar s"

definition HasPrefix :: "string \<Rightarrow> string \<Rightarrow> bool" where
  "HasPrefix s p = (take (length p) s = p)"

fun Contains :: "string \<Rightarrow> string \<Rightarrow> bool" where
  "Contains [] sub = (sub = [])"
| "Contains (c # cs) sub = (HasPrefix (c # cs) sub \<or> Contains cs sub)"

text \<open>\<open>slices.Sort\<close> and \<open>slices.Compact\<close> on a slice of \<open>int\<close>.\<close>

definition slices_Sort :: "int list \<Rightarrow> int list" where
  "slices_Sort xs = sort xs"

definition slices_Compact :: "int list \<Rightarrow> int list" where
  "slices_Compact xs = remdups_adj xs"


section \<open>The declarative network configuration\<close>

text \<open>
  The structs of package \<open>api\<close>, with the fields the generator reads. Field names carry
  a prefix for the struct they belong to (\<open>i_\<close> interface, \<open>b_\<close> bond, \<open>v_\<close> VLAN,
  \<open>r_\<close> route, \<open>dns_\<close>, \<open>ntp_\<close>, \<open>c_\<close> the configuration). Go's \<open>int\<close> is modelled
  as \<open>int\<close>: the generator only compares, sorts and prints these numbers. The proxy
  settings are only handed on to \<open>UpdateEnvironment\<close>; their type is the parameter \<open>'p\<close>.
\<close>

record SystemNetworkRoute =
  r_To :: string
  r_Via :: string

record SystemNetworkInterface =
  i_Name :: string
  i_Hwaddr :: string
  i_MTU :: int
  i_Addresses :: "string list"
  i_Routes :: "SystemNetworkRoute list"
  i_VLAN :: int
  i_VLANTags :: "int list"
  i_LLDP :: bool
  i_RequiredForOnline :: string

record SystemNetworkBond =
  b_Name :: string
  b_Hwaddr :: string
  b_Members :: "string list"
  b_Mode :: string
  b_MTU :: int
  b_Addresses :: "string list"
  b_Routes :: "SystemNetworkRoute list"
  b_VLAN :: int
  b_VLANTags :: "int list"
  b_LLDP :: bool
  b_RequiredForOnline :: string

record SystemNetworkVLAN =
  v_Name :: string
  v_ID :: int
  v_Parent :: string
  v_MTU :: int
  v_Addresses :: "string list"
  v_Routes :: "SystemNetworkRoute list"
  v_RequiredForOnline :: string

record SystemNetworkDNS =
  dns_Hostname :: string
  dns_Domain :: string
  dns_SearchDomains :: "string list"
  dns_Nameservers :: "string list"

record SystemNetworkNTP =
  ntp_Timeservers :: "string list"

record 'p SystemNetworkConfig =
  c_Interfaces :: "SystemNetworkInterface list"
  c_Bonds :: "SystemNetworkBond list"
  c_VLANs :: "SystemNetworkVLAN list"
  c_DNS :: "SystemNetworkDNS option"
  c_NTP :: "SystemNetworkNTP option"
  c_Proxy :: "'p"

text \<open>\<open>networkdConfigFile\<close>: a file name and its contents.\<close>

record networkdConfigFile =
  Name :: string
  Contents :: string


section \<open>The unit file generator\<close>

subsection \<open>\<open>processAddresses\<close>\<close>

text \<open>
  The loop over the addresses keeps the text written so far and the three flags
  \<open>hasDHCP4\<close>, \<open>hasDHCP6\<close> and \<open>acceptIPv6RA\<close>; \<open>addressStep\<close> is one iteration
  (the \<open>switch\<close>).
\<close>

definition addressStep :: "string \<times> bool \<times> bool \<times> bool \<Rightarrow> string \<Rightarrow> string \<times> bool \<times> bool \<times> bool" where
  "addressStep st addr =
     (case st of (ret, hasDHCP4, hasDHCP6, acceptIPv6RA) \<Rightarrow>
        if addr = ''dhcp4'' then (ret, True, hasDHCP6, acceptIPv6RA)
        else if addr = ''dhcp6'' then (ret, hasDHCP4, True, acceptIPv6RA)
        else if addr = ''slaac'' then (ret, hasDHCP4, hasDHCP6, True)
        else (ret @ ''Address='' @ addr @ ''\<newline>'', hasDHCP4, hasDHCP6, acceptIPv6RA))"

definition processAddresses :: "string list \<Rightarrow> string" where
  "processAddresses addresses =
     (let ret0 = (if length addresses \<noteq> 0 then ''LinkLocalAddressing=ipv6\<newline>''
                  else ''LinkLocalAddressing=no\<newline>'' @ ''ConfigureWithoutCarrier=yes\<newline>'')
      in case foldl addressStep (ret0, False, False, False) addresses of
           (ret1, hasDHCP4, hasDHCP6, acceptIPv6RA) \<Rightarrow>
             let ret2 = ret1 @ (if acceptIPv6RA then ''IPv6AcceptRA=true\<newline>''
                                else ''IPv6AcceptRA=false\<newline>'')
             in if hasDHCP4 \<and> hasDHCP6 then ret2 @ ''DHCP=yes\<newline>''
                else if hasDHCP4 then ret2 @ ''DHCP=ipv4\<newline>''
                else if hasDHCP6 then ret2 @ ''DHCP=ipv6\<newline>''
                else ret2)"

subsection \<open>\<open>processRoutes\<close>\<close>

definition routeStep :: "string \<Rightarrow> SystemNetworkRoute \<Rightarrow> string" where
  "routeStep ret route =
     (let ret1 = ret @ ''\<newline>[Route]\<newline>'';
          ret2 = (if r_Via route = ''dhcp4'' then ret1 @ ''Gateway=_dhcp4\<newline>''
                  else if r_Via route = ''slaac'' then ret1 @ ''Gateway=_ipv6ra\<newline>''
                  else ret1 @ ''Gateway='' @ r_Via route @ ''\<newline>'')
      in ret2 @ ''Destination='' @ r_To route @ ''\<newline>'')"

definition processRoutes :: "SystemNetworkRoute list \<Rightarrow> string" where
  "processRoutes routes = foldl routeStep [] routes"

subsection \<open>\<open>generateNetworkSectionContents\<close>\<close>

definition generateNetworkSectionContents ::
  "string \<Rightarrow> SystemNetworkVLAN list \<Rightarrow> SystemNetworkDNS option \<Rightarrow> SystemNetworkNTP option \<Rightarrow> string" where
  "generateNetworkSectionContents name vlans dns ntp =
     (let ret1 = foldl (\<lambda>ret v. if v_Parent v = name then ret @ ''VLAN='' @ v_Name v @ ''\<newline>'' else ret)
                   [] vlans;
          ret2 = (case dns of
                    None \<Rightarrow> ret1
                  | Some d \<Rightarrow>
                      foldl (\<lambda>ret ns. ret @ ''DNS='' @ ns @ ''\<newline>'')
                        (if length (dns_SearchDomains d) > 0
                         then ret1 @ ''Domains='' @ Join (dns_SearchDomains d) '' '' @ ''\<newline>''
                         else ret1)
                        (dns_Nameservers d))
      in case ntp of
           None \<Rightarrow> ret2
         | Some n \<Rightarrow> foldl (\<lambda>ret ts. ret @ ''NTP='' @ ts @ ''\<newline>'') ret2 (ntp_Timeservers n))"

subsection \<open>\<open>generateTimesyncContents\<close>\<close>

definition generateTimesyncContents :: "SystemNetworkNTP \<Rightarrow> string" where
  "generateTimesyncContents ntp =
     (if length (ntp_Timeservers ntp) = 0 then []
      else ''[Time]\<newline>FallbackNTP='' @ Join (ntp_Timeservers ntp) '' '' @ ''\<newline>'')"

subsection \<open>\<open>generateBridgeVLANContents\<close>\<close>

text \<open>The tag list as it stands after \<open>slices.Compact\<close>.\<close>

definition bridgeVLANTags :: "string \<Rightarrow> int \<Rightarrow> int list \<Rightarrow> SystemNetworkVLAN list \<Rightarrow> int list" where
  "bridgeVLANTags bridgeName specificVLAN additionalVLANTags vlans =
     (let vlanTags0 = (if specificVLAN \<noteq> 0 then [specificVLAN] else []);
          vlanTags1 = vlanTags0 @ additionalVLANTags;
          vlanTags2 = foldl (\<lambda>tags vlan. if v_Parent vlan = bridgeName then tags @ [v_ID vlan] else tags)
                        vlanTags1 vlans
      in slices_Compact (slices_Sort vlanTags2))"

definition generateBridgeVLANContents :: "string \<Rightarrow> int \<Rightarrow> int list \<Rightarrow> SystemNetworkVLAN list \<Rightarrow> string" where
  "generateBridgeVLANContents bridgeName specificVLAN additionalVLANTags vlans =
     (let vlanTags = bridgeVLANTags bridgeName specificVLAN additionalVLANTags vlans
      in if length vlanTags > 0
         then (if specificVLAN \<noteq> 0
               then ''\<newline>[BridgeVLAN]\<newline>'' @ ''PVID='' @ fmtInt specificVLAN @ ''\<newline>''
                      @ ''EgressUntagged='' @ fmtInt specificVLAN @ ''\<newline>''
               else [])
              @ foldl (\<lambda>ret tag. ret @ ''\<newline>[BridgeVLAN]\<newline>'' @ ''VLAN='' @ fmtInt tag @ ''\<newline>'') [] vlanTags
         else [])"

subsection \<open>\<open>generateLinkSectionContents\<close>\<close>

definition generateLinkSectionContents :: "string list \<Rightarrow> string \<Rightarrow> string" where
  "generateLinkSectionContents addresses requiredForOnline =
     (if length addresses = 0 \<or> requiredForOnline = ''no'' then ''RequiredForOnline=no''
      else ''RequiredForOnline=yes\<newline>RequiredFamilyForOnline=''
             @ (if requiredForOnline = [] then ''any'' else requiredForOnline))"

subsection \<open>\<open>generateLinkFileContents\<close>\<close>

definition generateLinkFileContents :: "'p SystemNetworkConfig \<Rightarrow> networkdConfigFile list" where
  "generateLinkFileContents networkCfg =
     map (\<lambda>i. let strippedHwaddr = ToLower (stripColons (i_Hwaddr i))
               in \<lparr>Name = ''00-en'' @ strippedHwaddr @ ''.link'',
                   Contents = ''[Match]\<newline>PermanentMACAddress='' @ i_Hwaddr i
                     @ ''\<newline>\<newline>[Link]\<newline>MACAddressPolicy=random\<newline>NamePolicy=\<newline>Name=en''
                     @ strippedHwaddr @ ''\<newline>''\<rparr>)
       (c_Interfaces networkCfg)
     @ concat (map (\<lambda>b. map (\<lambda>member. let strippedHwaddr = ToLower (stripColons member)
                                in \<lparr>Name = ''01-en'' @ strippedHwaddr @ ''.link'',
                                    Contents = ''[Match]\<newline>PermanentMACAddress='' @ member
                                      @ ''\<newline>\<newline>[Link]\<newline>NamePolicy=\<newline>Name=en''
                                      @ strippedHwaddr @ ''\<newline>''\<rparr>)
                          (b_Members b))
                (c_Bonds networkCfg))"

subsection \<open>\<open>generateNetdevFileContents\<close>\<close>

text \<open>
  A Go error value is one of: an \<open>errors.New(msg)\<close> made in this file, the error of a failed
  external command (\<open>subprocess.RunCommandContext\<close>), the error of a failed file system
  call of package \<open>os\<close>, or an error returned by a function of the package that lives in
  another file (the validators, \<open>SetHostname\<close>, \<open>UpdateEnvironment\<close>, \<open>RestartUnit\<close>) or
  by the JSON decoder. A run-time panic is the fifth alternative: it unwinds the callers
  the way an error return does.
\<close>

datatype error =
    ErrorString string
  | RunError string
  | PathError string
  | ForeignError string
  | Panic string

definition mtuString :: "int \<Rightarrow> string" where
  "mtuString mtu = (if mtu \<noteq> 0 then ''MTUBytes='' @ fmtInt mtu else [])"

definition bridgeNetdev :: "string \<Rightarrow> string \<Rightarrow> string \<Rightarrow> networkdConfigFile" where
  "bridgeNetdev prio name mtu =
     \<lparr>Name = prio @ ''-br'' @ name @ ''.netdev'',
      Contents = ''[NetDev]\<newline>Name=br'' @ name @ ''\<newline>Kind=bridge\<newline>'' @ mtu
        @ ''\<newline>\<newline>[Bridge]\<newline>VLANFiltering=true\<newline>''\<rparr>"

definition vethNetdev :: "string \<Rightarrow> string \<Rightarrow> string \<Rightarrow> string \<Rightarrow> networkdConfigFile" where
  "vethNetdev prio name macAddr mtu =
     \<lparr>Name = prio @ ''-'' @ name @ ''.netdev'',
      Contents = ''[NetDev]\<newline>Name='' @ name @ ''\<newline>Kind=veth\<newline>MACAddress='' @ macAddr
        @ ''\<newline>'' @ mtu @ ''\<newline>\<newline>[Peer]\<newline>Name=vt'' @ name @ ''\<newline>''\<rparr>"

definition interfaceNetdevs :: "SystemNetworkInterface \<Rightarrow> networkdConfigFile list" where
  "interfaceNetdevs i =
     [bridgeNetdev ''10'' (i_Name i) (mtuString (i_MTU i)),
      vethNetdev ''10'' (i_Name i) (i_Hwaddr i) (mtuString (i_MTU i))]"

text \<open>
  The body of the loop over the bonds. \<open>b.Members[0]\<close> is read only when the bond has no
  hardware address of its own, and panics when the member list is empty.
\<close>

definition bondNetdevs :: "SystemNetworkBond \<Rightarrow> error + networkdConfigFile list" where
  "bondNetdevs b =
     (let bond = \<lparr>Name = ''11-bn'' @ b_Name b @ ''.netdev'',
                  Contents = ''[NetDev]\<newline>Name=bn'' @ b_Name b @ ''\<newline>Kind=bond\<newline>''
                    @ mtuString (b_MTU b) @ ''\<newline>\<newline>[Bond]\<newline>Mode='' @ b_Mode b @ ''\<newline>''\<rparr>;
          bridge = bridgeNetdev ''11'' (b_Name b) (mtuString (b_MTU b))
      in if b_Hwaddr b = []
         then (case b_Members b of
                 [] \<Rightarrow> Inl (Panic ''index out of range [0] with length 0'')
               | member0 # _ \<Rightarrow>
                   Inr [bond, bridge, vethNetdev ''11'' (b_Name b) member0 (mtuString (b_MTU b))])
         else Inr [bond, bridge, vethNetdev ''11'' (b_Name b) (b_Hwaddr b) (mtuString (b_MTU b))])"

fun bondsNetdevs :: "SystemNetworkBond list \<Rightarrow> error + networkdConfigFile list" where
  "bondsNetdevs [] = Inr []"
| "bondsNetdevs (b # bs) =
     (case bondNetdevs b of
        Inl e \<Rightarrow> Inl e
      | Inr fs \<Rightarrow> (case bondsNetdevs bs of Inl e \<Rightarrow> Inl e | Inr gs \<Rightarrow> Inr (fs @ gs)))"

definition vlanNetdev :: "SystemNetworkVLAN \<Rightarrow> networkdConfigFile" where
  "vlanNetdev v =
     \<lparr>Name = ''12-'' @ v_Name v @ ''.netdev'',
      Contents = ''[NetDev]\<newline>Name='' @ v_Name v @ ''\<newline>Kind=vlan\<newline>'' @ mtuString (v_MTU v)
        @ ''\<newline>\<newline>[VLAN]\<newline>Id='' @ fmtInt (v_ID v) @ ''\<newline>''\<rparr>"

definition generateNetdevFileContents :: "'p SystemNetworkConfig \<Rightarrow> error + networkdConfigFile list" where
  "generateNetdevFileContents networkCfg =
     (case bondsNetdevs (c_Bonds networkCfg) of
        Inl e \<Rightarrow> Inl e
      | Inr bondFiles \<Rightarrow>
          Inr (concat (map interfaceNetdevs (c_Interfaces networkCfg))
               @ bondFiles
               @ map vlanNetdev (c_VLANs networkCfg)))"

subsection \<open>\<open>generateNetworkFileContents\<close>\<close>

text \<open>
  The user side of a veth device is written with the same format string for interfaces,
  bonds and VLANs; \<open>userSideNetwork\<close> is that text with the addresses and the routes
  appended.
\<close>

definition userSideNetwork ::
  "string \<Rightarrow> string list \<Rightarrow> string \<Rightarrow> SystemNetworkRoute list \<Rightarrow> string \<Rightarrow> string" where
  "userSideNetwork name addresses requiredForOnline routes networkSection =
     (let cfgString = ''[Match]\<newline>Name='' @ name @ ''\<newline>\<newline>[Link]\<newline>''
            @ generateLinkSectionContents addresses requiredForOnline
            @ ''\<newline>\<newline>[DHCP]\<newline>ClientIdentifier=mac\<newline>RouteMetric=100\<newline>UseMTU=true\<newline>\<newline>[Network]\<newline>''
            @ networkSection;
          cfgString1 = cfgString @ processAddresses addresses
      in if length routes > 0 then cfgString1 @ processRoutes routes else cfgString1)"

definition bridgeNetwork :: "string \<Rightarrow> string \<Rightarrow> networkdConfigFile" where
  "bridgeNetwork prio name =
     \<lparr>Name = prio @ ''-br'' @ name @ ''.network'',
      Contents = ''[Match]\<newline>Name=br'' @ name
        @ ''\<newline>\<newline>[Network]\<newline>LinkLocalAddressing=no\<newline>ConfigureWithoutCarrier=yes\<newline>''\<rparr>"

definition interfaceNetworks :: "'p SystemNetworkConfig \<Rightarrow> SystemNetworkInterface \<Rightarrow> networkdConfigFile list" where
  "interfaceNetworks networkCfg i =
     (let strippedHwaddr = ToLower (stripColons (i_Hwaddr i));
          bridgeVLAN = generateBridgeVLANContents (i_Name i) (i_VLAN i) (i_VLANTags i) (c_VLANs networkCfg)
      in [\<lparr>Name = ''20-'' @ i_Name i @ ''.network'',
           Contents = userSideNetwork (i_Name i) (i_Addresses i) (i_RequiredForOnline i) (i_Routes i)
             (generateNetworkSectionContents (i_Name i) (c_VLANs networkCfg) (c_DNS networkCfg) (c_NTP networkCfg))\<rparr>,
          \<lparr>Name = ''20-vt'' @ i_Name i @ ''.network'',
           Contents = ''[Match]\<newline>Name=vt'' @ i_Name i @ ''\<newline>\<newline>[Network]\<newline>Bridge=br'' @ i_Name i
             @ ''\<newline>'' @ bridgeVLAN\<rparr>,
          \<lparr>Name = ''20-en'' @ strippedHwaddr @ ''.network'',
           Contents = ''[Match]\<newline>Name=en'' @ strippedHwaddr @ ''\<newline>\<newline>[Network]\<newline>LLDP=''
             @ FormatBool (i_LLDP i) @ ''\<newline>EmitLLDP='' @ FormatBool (i_LLDP i)
             @ ''\<newline>Bridge=br'' @ i_Name i @ ''\<newline>'' @ bridgeVLAN\<rparr>,
          bridgeNetwork ''20'' (i_Name i)])"

definition bondMemberNetwork :: "SystemNetworkBond \<Rightarrow> nat \<times> string \<Rightarrow> networkdConfigFile" where
  "bondMemberNetwork b im =
     (case im of (index, member) \<Rightarrow>
        \<lparr>Name = ''21-bn'' @ b_Name b @ ''-dev'' @ fmtNat index @ ''.network'',
         Contents = ''[Match]\<newline>Name=en'' @ ToLower (stripColons member) @ ''\<newline>\<newline>[Network]\<newline>LLDP=''
           @ FormatBool (b_LLDP b) @ ''\<newline>EmitLLDP='' @ FormatBool (b_LLDP b)
           @ ''\<newline>Bond=bn'' @ b_Name b @ ''\<newline>''\<rparr>)"

definition bondNetworks :: "'p SystemNetworkConfig \<Rightarrow> SystemNetworkBond \<Rightarrow> networkdConfigFile list" where
  "bondNetworks networkCfg b =
     (let bridgeVLAN = generateBridgeVLANContents (b_Name b) (b_VLAN b) (b_VLANTags b) (c_VLANs networkCfg)
      in [\<lparr>Name = ''21-'' @ b_Name b @ ''.network'',
           Contents = userSideNetwork (b_Name b) (b_Addresses b) (b_RequiredForOnline b) (b_Routes b)
             (generateNetworkSectionContents (b_Name b) (c_VLANs networkCfg) (c_DNS networkCfg) (c_NTP networkCfg))\<rparr>,
          \<lparr>Name = ''21-vt'' @ b_Name b @ ''.network'',
           Contents = ''[Match]\<newline>Name=vt'' @ b_Name b @ ''\<newline>\<newline>[Network]\<newline>Bridge=br'' @ b_Name b
             @ ''\<newline>'' @ bridgeVLAN\<rparr>,
          \<lparr>Name = ''21-bn'' @ b_Name b @ ''.network'',
           Contents = ''[Match]\<newline>Name=bn'' @ b_Name b
             @ ''\<newline>\<newline>[Network]\<newline>LinkLocalAddressing=no\<newline>ConfigureWithoutCarrier=yes\<newline>Bridge=br''
             @ b_Name b @ ''\<newline>'' @ bridgeVLAN\<rparr>,
          bridgeNetwork ''21'' (b_Name b)]
         @ map (bondMemberNetwork b) (zip [0 ..< length (b_Members b)] (b_Members b)))"

definition vlanNetwork :: "'p SystemNetworkConfig \<Rightarrow> SystemNetworkVLAN \<Rightarrow> networkdConfigFile" where
  "vlanNetwork networkCfg v =
     \<lparr>Name = ''22-'' @ v_Name v @ ''.network'',
      Contents = userSideNetwork (v_Name v) (v_Addresses v) (v_RequiredForOnline v) (v_Routes v)
        (generateNetworkSectionContents (v_Name v) [] (c_DNS networkCfg) (c_NTP networkCfg))\<rparr>"

definition generateNetworkFileContents :: "'p SystemNetworkConfig \<Rightarrow> networkdConfigFile list" where
  "generateNetworkFileContents networkCfg =
     concat (map (interfaceNetworks networkCfg) (c_Interfaces networkCfg))
     @ concat (map (bondNetworks networkCfg) (c_Bonds networkCfg))
     @ map (vlanNetwork networkCfg) (c_VLANs networkCfg)"


section \<open>The world outside the program\<close>

text \<open>
  Everything the program does to its surroundings is an \<open>event\<close>: a call of a function of
  the package that is defined in another file, a file system call, an external command or
  a sleep. The \<open>world\<close> holds the monotonic clock (in nanoseconds, the unit of
  \<open>time.Duration\<close>) and the events performed so far, in order. Times are \<open>int\<close>: the model
  does not cover an overflow of the time representation.
\<close>

datatype 'p event =
    EvSetHostname string
  | EvUpdateEnvironment 'p
  | EvRestartUnit string
  | EvRemoveAll string
  | EvMkdir string
  | EvWriteFile string string
  | EvRemove string
  | EvRunCommand "string list"
  | EvSleep int

record 'p world =
  clock :: int
  trace :: "'p event list"

text \<open>
  The environment is a parameter of every effectful function. \<open>respond\<close> gives, for an event
  performed in a world, its result (the message of an error, or the output of a command)
  and the time it takes; \<open>drift\<close> is the time that passes in the program's own computation before a clock
  read. Both are natural numbers, so the clock never runs backwards. The three validators,
  the two path constants and the library functions \<open>filepath.Join\<close> and
  \<open>regexp.FindAllStringSubmatch\<close> are not part of this file and are parameters as well:
  \<^item> \<open>validateInterfaces\<close>, \<open>validateBonds\<close>, \<open>validateVLANs\<close> return an error or nothing;
  \<^item> \<open>ipAddressSubmatches output\<close> is the first capture group of every match of the
    regular expression \<^verbatim>\<open>inet6? (.+)/\d+ \<close> in \<open>output\<close>, in order.
\<close>

record 'p env =
  respond :: "'p world \<Rightarrow> 'p event \<Rightarrow> (string + string) \<times> nat"
  drift :: "'p world \<Rightarrow> nat"
  validateInterfaces :: "SystemNetworkInterface list \<Rightarrow> SystemNetworkVLAN list \<Rightarrow> error option"
  validateBonds :: "SystemNetworkBond list \<Rightarrow> SystemNetworkVLAN list \<Rightarrow> error option"
  validateVLANs :: "'p SystemNetworkConfig \<Rightarrow> error option"
  SystemdNetworkConfigPath :: string
  SystemdTimesyncConfigFile :: string
  filepath_Join :: "string \<Rightarrow> string \<Rightarrow> string"
  ipAddressSubmatches :: "string \<Rightarrow> string list"

text \<open>
  The error value of a failed event: the kind of the error follows the kind of the event,
  the message is the environment's.
\<close>

definition errorOf :: "'p event \<Rightarrow> string \<Rightarrow> error" where
  "errorOf ev msg =
     (case ev of
        EvSetHostname _ \<Rightarrow> ForeignError msg
      | EvUpdateEnvironment _ \<Rightarrow> ForeignError msg
      | EvRestartUnit _ \<Rightarrow> ForeignError msg
      | EvRemoveAll _ \<Rightarrow> PathError msg
      | EvMkdir _ \<Rightarrow> PathError msg
      | EvWriteFile _ _ \<Rightarrow> PathError msg
      | EvRemove _ \<Rightarrow> PathError msg
      | EvRunCommand _ \<Rightarrow> RunError msg
      | EvSleep _ \<Rightarrow> ForeignError msg)"

definition perform :: "'p env \<Rightarrow> 'p event \<Rightarrow> 'p world \<Rightarrow> (error + string) \<times> 'p world" where
  "perform env ev w =
     (case respond env w ev of
        (res, d) \<Rightarrow>
          (case res of Inl msg \<Rightarrow> Inl (errorOf ev msg) | Inr out \<Rightarrow> Inr out,
           \<lparr>clock = clock w + int d, trace = trace w @ [ev]\<rparr>))"

text \<open>\<open>time.Now()\<close>: the clock after the time that has passed since the last event.\<close>

definition timeNow :: "'p env \<Rightarrow> 'p world \<Rightarrow> int \<times> 'p world" where
  "timeNow env w = (let t = clock w + int (drift env w) in (t, w\<lparr>clock := t\<rparr>))"

text \<open>\<open>time.Sleep(d)\<close> pauses for at least \<open>d\<close>.\<close>

definition timeSleep :: "'p env \<Rightarrow> int \<Rightarrow> 'p world \<Rightarrow> 'p world" where
  "timeSleep env d w =
     (case respond env w (EvSleep d) of
        (_, extra) \<Rightarrow> \<lparr>clock = clock w + d + int extra, trace = trace w @ [EvSleep d]\<rparr>)"

definition Millisecond :: int where
  "Millisecond = 1000000"

definition Second :: int where
  "Second = 1000 * Millisecond"

text \<open>Sequencing of two steps, the second of which runs only when the first returns no error.\<close>

definition andThen ::
  "(error + 'a) \<times> 'w \<Rightarrow> ('a \<Rightarrow> 'w \<Rightarrow> (error + 'b) \<times> 'w) \<Rightarrow> (error + 'b) \<times> 'w" where
  "andThen m f = (case m of (Inl e, w) \<Rightarrow> (Inl e, w) | (Inr x, w) \<Rightarrow> f x w)"

text \<open>
  Modelled from the spec: \<open>SetHostname\<close>, \<open>UpdateEnvironment\<close> and \<open>RestartUnit\<close> are
  functions of the package defined outside this file. Each is one event, whose error, if
  any, is returned.
\<close>

definition SetHostname :: "'p env \<Rightarrow> string \<Rightarrow> 'p world \<Rightarrow> (error + unit) \<times> 'p world" where
  "SetHostname env hostname w = andThen (perform env (EvSetHostname hostname) w) (\<lambda>_ w'. (Inr (), w'))"

definition UpdateEnvironment :: "'p env \<Rightarrow> 'p \<Rightarrow> 'p world \<Rightarrow> (error + unit) \<times> 'p world" where
  "UpdateEnvironment env proxy w = andThen (perform env (EvUpdateEnvironment proxy) w) (\<lambda>_ w'. (Inr (), w'))"

definition RestartUnit :: "'p env \<Rightarrow> string \<Rightarrow> 'p world \<Rightarrow> (error + unit) \<times> 'p world" where
  "RestartUnit env unit w = andThen (perform env (EvRestartUnit unit) w) (\<lambda>_ w'. (Inr (), w'))"


section \<open>Validation\<close>

text \<open>A \<open>nil\<close> pointer is \<open>None\<close>.\<close>

definition ValidateNetworkConfiguration :: "'p env \<Rightarrow> 'p SystemNetworkConfig option \<Rightarrow> error option" where
  "ValidateNetworkConfiguration env networkCfg =
     (case networkCfg of
        None \<Rightarrow> Some (ErrorString ''no network configuration provided'')
      | Some cfg \<Rightarrow>
          (case validateInterfaces env (c_Interfaces cfg) (c_VLANs cfg) of
             Some err \<Rightarrow> Some err
           | None \<Rightarrow>
               (case validateBonds env (c_Bonds cfg) (c_VLANs cfg) of
                  Some err \<Rightarrow> Some err
                | None \<Rightarrow>
                    (case validateVLANs env cfg of
                       Some err \<Rightarrow> Some err
                     | None \<Rightarrow> None))))"


section \<open>Writing the configuration directory\<close>

fun writeFiles :: "'p env \<Rightarrow> networkdConfigFile list \<Rightarrow> 'p world \<Rightarrow> (error + unit) \<times> 'p world" where
  "writeFiles env [] w = (Inr (), w)"
| "writeFiles env (cfg # cfgs) w =
     (case perform env (EvWriteFile (filepath_Join env (SystemdNetworkConfigPath env) (Name cfg)) (Contents cfg)) w of
        (Inl err, w') \<Rightarrow> (Inl err, w')
      | (Inr _, w') \<Rightarrow> writeFiles env cfgs w')"

definition writeTimesync :: "'p env \<Rightarrow> SystemNetworkNTP option \<Rightarrow> 'p world \<Rightarrow> (error + unit) \<times> 'p world" where
  "writeTimesync env ntp w =
     (let ntpCfg = (case ntp of None \<Rightarrow> [] | Some n \<Rightarrow> generateTimesyncContents n)
      in andThen
           (if ntp \<noteq> None \<and> ntpCfg \<noteq> []
            then andThen (perform env (EvWriteFile (SystemdTimesyncConfigFile env) ntpCfg) w) (\<lambda>_ w'. (Inr (), w'))
            else (Inr (), w))
           (\<lambda>_ w1. if ntp = None \<or> ntpCfg = []
                    then (Inr (), snd (perform env (EvRemove (SystemdTimesyncConfigFile env)) w1))
                    else (Inr (), w1)))"

definition generateNetworkConfiguration ::
  "'p env \<Rightarrow> 'p SystemNetworkConfig option \<Rightarrow> 'p world \<Rightarrow> (error + unit) \<times> 'p world" where
  "generateNetworkConfiguration env networkCfg w =
     andThen (perform env (EvRemoveAll (SystemdNetworkConfigPath env)) w) (\<lambda>_ w1.
     andThen (perform env (EvMkdir (SystemdNetworkConfigPath env)) w1) (\<lambda>_ w2.
       case networkCfg of
         None \<Rightarrow> (Inl (Panic ''nil pointer dereference''), w2)
       | Some cfg \<Rightarrow>
           andThen (writeFiles env (generateLinkFileContents cfg) w2) (\<lambda>_ w3.
           andThen (generateNetdevFileContents cfg, w3) (\<lambda>netdevs w4.
           andThen (writeFiles env netdevs w4) (\<lambda>_ w5.
           andThen (writeFiles env (generateNetworkFileContents cfg) w5) (\<lambda>_ w6.
             writeTimesync env (c_NTP cfg) w6))))))"


section \<open>The convergence poller\<close>

subsection \<open>\<open>waitForUdevInterfaceRename\<close>\<close>

lemma perform_clock: "perform env ev w = (res, w') \<Longrightarrow> clock w \<le> clock w'"
  by (auto simp: perform_def split: prod.splits)

lemma timeNow_clock: "timeNow env w = (t, w') \<Longrightarrow> clock w \<le> t \<and> clock w' = t"
  by (auto simp: timeNow_def Let_def)

lemma timeSleep_clock: "clock w + d \<le> clock (timeSleep env d w)"
  by (auto simp: timeSleep_def split: prod.splits)

lemma perform3_clock:
  assumes "(r1, w1) = perform env e1 w0" and "(r2, w2) = perform env e2 w1"
    and "(r3, w3) = perform env e3 w2"
  shows "clock w0 \<le> clock w3"
proof -
  have "clock w0 \<le> clock w1" using assms(1) perform_clock[of env e1 w0 r1 w1] by simp
  moreover have "clock w1 \<le> clock w2" using assms(2) perform_clock[of env e2 w1 r2 w2] by simp
  moreover have "clock w2 \<le> clock w3" using assms(3) perform_clock[of env e3 w2 r3 w3] by simp
  ultimately show ?thesis by simp
qed

text \<open>
  One round of a polling loop that starts before the deadline ends, after the sleep, at
  a strictly later time: the measure of both loops.
\<close>

lemma poll_progress:
  assumes "(t, w0) = timeNow env w" and "\<not> endTime < t"
    and "clock w0 \<le> clock w3"
  shows "clock w \<le> endTime \<and> clock w < clock (timeSleep env (500 * Millisecond) w3)"
proof -
  have "clock w \<le> t" "clock w0 = t"
    using timeNow_clock[of env w t w0] assms(1) by auto
  moreover have "clock w3 + 500 * Millisecond \<le> clock (timeSleep env (500 * Millisecond) w3)"
    by (rule timeSleep_clock)
  ultimately show ?thesis using assms by (simp add: Millisecond_def)
qed

function renameLoop :: "'p env \<Rightarrow> int \<Rightarrow> 'p world \<Rightarrow> (error + unit) \<times> 'p world" where
  "renameLoop env endTime w =
     (case timeNow env w of
        (t, w0) \<Rightarrow>
          if t > endTime
          then (Inl (ErrorString ''timed out waiting for udev to rename interface(s)''), w0)
          else (case perform env (EvRunCommand [''udevadm'', ''trigger'', ''--action=add'']) w0 of
                  (Inl err, w1) \<Rightarrow> (Inl err, w1)
                | (Inr _, w1) \<Rightarrow>
                    (case perform env (EvRunCommand [''udevadm'', ''settle'']) w1 of
                       (Inl err, w2) \<Rightarrow> (Inl err, w2)
                     | (Inr _, w2) \<Rightarrow>
                         (case perform env (EvRunCommand [''journalctl'', ''-b'', ''-t'', ''kernel'', ''-g'',
                                                           ''en[[:xdigit:]]{12}: renamed from '']) w2 of
                            (Inr _, w3) \<Rightarrow> (Inr (), w3)
                          | (Inl _, w3) \<Rightarrow> renameLoop env endTime (timeSleep env (500 * Millisecond) w3)))))"
  by pat_completeness auto
termination
  apply (relation "measure (\<lambda>(env, endTime, w). nat (endTime + 1 - clock w))")
   apply simp
  apply simp
  apply (erule (1) poll_progress)
  apply (erule perform3_clock, assumption, assumption)
  done

declare renameLoop.simps [simp del]

definition waitForUdevInterfaceRename :: "'p env \<Rightarrow> int \<Rightarrow> 'p world \<Rightarrow> (error + unit) \<times> 'p world" where
  "waitForUdevInterfaceRename env timeout w =
     (case timeNow env w of (t, w0) \<Rightarrow> renameLoop env (t + timeout) w0)"

subsection \<open>\<open>waitForNetworkOnline\<close>\<close>

text \<open>The two closures of \<open>waitForNetworkOnline\<close>.\<close>

definition isOnline :: "'p env \<Rightarrow> string \<Rightarrow> 'p world \<Rightarrow> (bool \<times> bool) \<times> 'p world" where
  "isOnline env name w =
     (case perform env (EvRunCommand [''networkctl'', ''status'', name]) w of
        (Inl _, w') \<Rightarrow> ((False, True), w')
      | (Inr output, w') \<Rightarrow>
          ((Contains output ''Online state: online'', Contains output ''Required For Online: yes''), w'))"

definition hasAtLeastOneConfiguredIP :: "'p env \<Rightarrow> string \<Rightarrow> 'p world \<Rightarrow> bool \<times> 'p world" where
  "hasAtLeastOneConfiguredIP env name w =
     (case perform env (EvRunCommand [''ip'', ''address'', ''show'', name]) w of
        (Inl _, w') \<Rightarrow> (False, w')
      | (Inr output, w') \<Rightarrow>
          (let numIPs = foldl (\<lambda>n addr. if HasPrefix addr ''169.254.'' \<or> HasPrefix addr ''fe80:''
                                        then n else n + 1)
                          (0::int) (ipAddressSubmatches env output)
           in (numIPs > 0, w')))"

definition devicesToCheck :: "'p SystemNetworkConfig \<Rightarrow> string list" where
  "devicesToCheck networkCfg =
     map i_Name (filter (\<lambda>i. length (i_Addresses i) \<noteq> 0) (c_Interfaces networkCfg))
     @ map b_Name (filter (\<lambda>b. length (b_Addresses b) \<noteq> 0) (c_Bonds networkCfg))
     @ map v_Name (filter (\<lambda>v. length (v_Addresses v) \<noteq> 0) (c_VLANs networkCfg))"

text \<open>
  The body of the inner loop for one device: \<open>True\<close> when the loop goes on to the next
  device (\<open>continue\<close>, or both conditions hold), \<open>False\<close> when it sets
  \<open>allDevicesOnline = false\<close> and breaks. The address query is only made for a device that
  is required and reports online.
\<close>

definition checkDevice :: "'p env \<Rightarrow> string \<Rightarrow> 'p world \<Rightarrow> bool \<times> 'p world" where
  "checkDevice env name w =
     (case isOnline env name w of
        ((online, requiredOnline), w1) \<Rightarrow>
          if \<not> requiredOnline then (True, w1)
          else if \<not> online then (False, w1)
          else (case hasAtLeastOneConfiguredIP env name w1 of
                  (hasIP, w2) \<Rightarrow> if \<not> hasIP then (False, w2) else (True, w2)))"

text \<open>One polling pass: the value of \<open>allDevicesOnline\<close> after the inner loop.\<close>

fun checkDevices :: "'p env \<Rightarrow> string list \<Rightarrow> 'p world \<Rightarrow> bool \<times> 'p world" where
  "checkDevices env [] w = (True, w)"
| "checkDevices env (name # names) w =
     (case checkDevice env name w of
        (ok, w1) \<Rightarrow> if ok then checkDevices env names w1 else (False, w1))"

lemma checkDevice_clock: "checkDevice env name w = (ok, w') \<Longrightarrow> clock w \<le> clock w'"
  unfolding checkDevice_def isOnline_def hasAtLeastOneConfiguredIP_def Let_def
  by (auto split: prod.splits sum.splits if_splits dest!: perform_clock)

lemma checkDevices_clock: "checkDevices env names w = (ok, w') \<Longrightarrow> clock w \<le> clock w'"
proof (induction names arbitrary: w)
  case Nil
  then show ?case by simp
next
  case (Cons name names)
  then show ?case
    by (fastforce split: prod.splits if_splits dest: checkDevice_clock)
qed

function onlineLoop :: "'p env \<Rightarrow> string list \<Rightarrow> int \<Rightarrow> 'p world \<Rightarrow> (error + unit) \<times> 'p world" where
  "onlineLoop env devices endTime w =
     (case timeNow env w of
        (t, w0) \<Rightarrow>
          if t > endTime
          then (Inl (ErrorString ''timed out waiting for network to come online''), w0)
          else (case checkDevices env devices w0 of
                  (allDevicesOnline, w1) \<Rightarrow>
                    if allDevicesOnline then (Inr (), w1)
                    else onlineLoop env devices endTime (timeSleep env (500 * Millisecond) w1)))"
  by pat_completeness auto
termination
  apply (relation "measure (\<lambda>(env, devices, endTime, w). nat (endTime + 1 - clock w))")
   apply simp
  apply simp
  apply (erule (1) poll_progress)
  apply (erule checkDevices_clock[OF sym])
  done

declare onlineLoop.simps [simp del]

definition waitForNetworkOnline ::
  "'p env \<Rightarrow> 'p SystemNetworkConfig option \<Rightarrow> int \<Rightarrow> 'p world \<Rightarrow> (error + unit) \<times> 'p world" where
  "waitForNetworkOnline env networkCfg timeout w =
     (case timeNow env w of
        (t, w0) \<Rightarrow>
          (case networkCfg of
             None \<Rightarrow> (Inl (Panic ''nil pointer dereference''), w0)
           | Some cfg \<Rightarrow> onlineLoop env (devicesToCheck cfg) (t + timeout) w0))"


section \<open>\<open>ApplyNetworkConfiguration\<close>\<close>

definition hostnameOf :: "'p SystemNetworkConfig \<Rightarrow> string" where
  "hostnameOf networkCfg =
     (case c_DNS networkCfg of
        None \<Rightarrow> []
      | Some dns \<Rightarrow>
          if dns_Hostname dns \<noteq> []
          then (if dns_Domain dns \<noteq> [] then dns_Hostname dns @ ''.'' @ dns_Domain dns
                else dns_Hostname dns)
          else [])"

definition ApplyNetworkConfiguration ::
  "'p env \<Rightarrow> 'p SystemNetworkConfig option \<Rightarrow> int \<Rightarrow> 'p world \<Rightarrow> (error + unit) \<times> 'p world" where
  "ApplyNetworkConfiguration env networkCfg timeout w =
     (case ValidateNetworkConfiguration env networkCfg of
        Some err \<Rightarrow> (Inl err, w)
      | None \<Rightarrow>
          (case networkCfg of
             None \<Rightarrow> (Inl (Panic ''nil pointer dereference''), w)
           | Some cfg \<Rightarrow>
               andThen (SetHostname env (hostnameOf cfg) w) (\<lambda>_ w1.
               andThen (UpdateEnvironment env (c_Proxy cfg) w1) (\<lambda>_ w2.
               andThen (generateNetworkConfiguration env networkCfg w2) (\<lambda>_ w3.
               andThen (waitForUdevInterfaceRename env (5 * Second) w3) (\<lambda>_ w4.
               andThen (RestartUnit env ''systemd-networkd'' w4) (\<lambda>_ w5.
               andThen (RestartUnit env ''systemd-timesyncd'' w5) (\<lambda>_ w6.
                 waitForNetworkOnline env networkCfg timeout w6))))))))"


section \<open>The system action endpoint\<close>

text \<open>
  The handler of package \<open>rest\<close>. The request carries its method and its body; the state of
  the server holds the two one-shot channels. What a call does is collected in a
  \<open>handled\<close> record: the header set, the responses rendered in order, the channels
  afterwards, whether the body was given to the JSON decoder, and whether the call
  panicked (closing a closed channel panics). The JSON decoder and the \<open>%q\<close> quoting of
  \<open>fmt.Errorf\<close> are library functions and parameters: \<open>decodeAction body\<close> is the error
  of \<open>Decode\<close> or the \<open>action\<close> field it read.
\<close>

datatype chan = Open | Closed

record State =
  TriggerShutdown :: chan
  TriggerReboot :: chan

record Request =
  Method :: string
  Body :: string

datatype response =
    NotImplemented "error option"
  | InternalError error
  | BadRequest error
  | EmptySyncResponse

record handled =
  header :: "(string \<times> string) list"
  rendered :: "response list"
  state :: State
  bodyDecoded :: bool
  panicked :: bool

definition closeChan :: "chan \<Rightarrow> error + chan" where
  "closeChan c = (case c of Open \<Rightarrow> Inr Closed | Closed \<Rightarrow> Inl (Panic ''close of closed channel''))"

definition apiSystem ::
  "(string \<Rightarrow> error + string) \<Rightarrow> (string \<Rightarrow> string) \<Rightarrow> State \<Rightarrow> Request \<Rightarrow> handled" where
  "apiSystem decodeAction quote s r =
     (let h0 = \<lparr>header = [(''Content-Type'', ''application/json'')], rendered = [], state = s,
                 bodyDecoded = False, panicked = False\<rparr>
      in if Method r \<noteq> ''PUT'' then h0\<lparr>rendered := [NotImplemented None]\<rparr>
         else (let h1 = h0\<lparr>bodyDecoded := True\<rparr>
               in case decodeAction (Body r) of
                    Inl err \<Rightarrow> h1\<lparr>rendered := [InternalError err]\<rparr>
                  | Inr action \<Rightarrow>
                      if action = ''shutdown'' \<or> action = ''poweroff''
                      then (case closeChan (TriggerShutdown s) of
                              Inl _ \<Rightarrow> h1\<lparr>panicked := True\<rparr>
                            | Inr c \<Rightarrow> h1\<lparr>state := s\<lparr>TriggerShutdown := c\<rparr>, rendered := [EmptySyncResponse]\<rparr>)
                      else if action = ''reboot''
                      then (case closeChan (TriggerReboot s) of
                              Inl _ \<Rightarrow> h1\<lparr>panicked := True\<rparr>
                            | Inr c \<Rightarrow> h1\<lparr>state := s\<lparr>TriggerReboot := c\<rparr>, rendered := [EmptySyncResponse]\<rparr>)
                      else h1\<lparr>rendered := [BadRequest (ErrorString (''invalid action '' @ quote action))]\<rparr>))"


section \<open>Reading the generated text\<close>

text \<open>
  The properties below are about the directives and sections of a generated file. A file
  is read the way its consumer reads it: as lines (\<open>splitLines\<close> cuts at every newline), of which the
  lines between the header \<open>[sec]\<close> and the next header are the section \<open>sec\<close>
  (\<open>sectionLines\<close>, blank lines left out), and the lines of a section that begin with
  \<open>key=\<close> are its directives for \<open>key\<close> (\<open>sectionDirectives\<close>).
\<close>

fun splitFrom :: "string \<Rightarrow> string \<Rightarrow> string list" where
  "splitFrom acc [] = [acc]"
| "splitFrom acc (c # cs) =
     (if c = CHR ''\<newline>'' then acc # splitFrom [] cs else splitFrom (acc @ [c]) cs)"

definition splitLines :: "string \<Rightarrow> string list" where
  "splitLines text = splitFrom [] text"

definition unlines :: "string list \<Rightarrow> string" where
  "unlines ls = concat (map (\<lambda>l. l @ ''\<newline>'') ls)"

definition sectionLines :: "string \<Rightarrow> string \<Rightarrow> string list" where
  "sectionLines sec text =
     filter (\<lambda>l. l \<noteq> [])
       (takeWhile (\<lambda>l. \<not> HasPrefix l ''['')
          (tl (dropWhile (\<lambda>l. l \<noteq> ''['' @ sec @ '']'') (splitLines text))))"

definition sectionDirectives :: "string \<Rightarrow> string \<Rightarrow> string \<Rightarrow> string list" where
  "sectionDirectives sec key text = filter (\<lambda>l. HasPrefix l (key @ ''='')) (sectionLines sec text)"

text \<open>
  A string without a newline. A configuration is \<open>plain\<close> when none of the strings the
  generator copies into a network file contains a newline: names, addresses, policies,
  routes, DNS and NTP entries.
\<close>

definition singleLine :: "string \<Rightarrow> bool" where
  "singleLine s = (CHR ''\<newline>'' \<notin> set s)"

text \<open>
  The three kinds of device, with the attributes they share, the name of the network file
  of the user side of the device, and the VLAN list handed to
  \<open>generateNetworkSectionContents\<close> (\<open>nil\<close> for a VLAN).
\<close>

datatype device =
    Interface SystemNetworkInterface
  | Bond SystemNetworkBond
  | VLAN SystemNetworkVLAN

definition devices :: "'p SystemNetworkConfig \<Rightarrow> device list" where
  "devices cfg = map Interface (c_Interfaces cfg) @ map Bond (c_Bonds cfg) @ map VLAN (c_VLANs cfg)"

fun deviceName :: "device \<Rightarrow> string" where
  "deviceName (Interface i) = i_Name i"
| "deviceName (Bond b) = b_Name b"
| "deviceName (VLAN v) = v_Name v"

fun deviceAddresses :: "device \<Rightarrow> string list" where
  "deviceAddresses (Interface i) = i_Addresses i"
| "deviceAddresses (Bond b) = b_Addresses b"
| "deviceAddresses (VLAN v) = v_Addresses v"

fun deviceRequiredForOnline :: "device \<Rightarrow> string" where
  "deviceRequiredForOnline (Interface i) = i_RequiredForOnline i"
| "deviceRequiredForOnline (Bond b) = b_RequiredForOnline b"
| "deviceRequiredForOnline (VLAN v) = v_RequiredForOnline v"

fun deviceRoutes :: "device \<Rightarrow> SystemNetworkRoute list" where
  "deviceRoutes (Interface i) = i_Routes i"
| "deviceRoutes (Bond b) = b_Routes b"
| "deviceRoutes (VLAN v) = v_Routes v"

fun networkFileName :: "device \<Rightarrow> string" where
  "networkFileName (Interface i) = ''20-'' @ i_Name i @ ''.network''"
| "networkFileName (Bond b) = ''21-'' @ b_Name b @ ''.network''"
| "networkFileName (VLAN v) = ''22-'' @ v_Name v @ ''.network''"

fun deviceVLANs :: "'p SystemNetworkConfig \<Rightarrow> device \<Rightarrow> SystemNetworkVLAN list" where
  "deviceVLANs cfg (VLAN v) = []"
| "deviceVLANs cfg dev = c_VLANs cfg"

definition plainDevice :: "device \<Rightarrow> bool" where
  "plainDevice dev =
     (singleLine (deviceName dev) \<and> list_all singleLine (deviceAddresses dev)
      \<and> singleLine (deviceRequiredForOnline dev)
      \<and> list_all (\<lambda>r. singleLine (r_Via r) \<and> singleLine (r_To r)) (deviceRoutes dev))"

definition plainConfig :: "'p SystemNetworkConfig \<Rightarrow> bool" where
  "plainConfig cfg =
     (list_all plainDevice (devices cfg)
      \<and> (case c_DNS cfg of
            None \<Rightarrow> True
          | Some d \<Rightarrow> list_all singleLine (dns_SearchDomains d) \<and> list_all singleLine (dns_Nameservers d))
      \<and> (case c_NTP cfg of None \<Rightarrow> True | Some n \<Rightarrow> list_all singleLine (ntp_Timeservers n)))"

text \<open>
  The lines of the generated text, as the specification words them: the addressing
  directives of a device (a literal address is a token other than \<open>dhcp4\<close>, \<open>dhcp6\<close> and
  \<open>slaac\<close>), the lines of the \<open>[Link]\<close> section, the VLAN, DNS and NTP lines of the
  \<open>[Network]\<close> section, the lines of the routes, and the whole user-side network file.
\<close>

definition literalAddresses :: "string list \<Rightarrow> string list" where
  "literalAddresses addresses =
     filter (\<lambda>a. a \<noteq> ''dhcp4'' \<and> a \<noteq> ''dhcp6'' \<and> a \<noteq> ''slaac'') addresses"

definition addressDirectives :: "string list \<Rightarrow> string list" where
  "addressDirectives addresses =
     (if addresses = [] then [''LinkLocalAddressing=no'', ''ConfigureWithoutCarrier=yes'']
      else [''LinkLocalAddressing=ipv6''])
     @ map (\<lambda>a. ''Address='' @ a) (literalAddresses addresses)
     @ [if ''slaac'' \<in> set addresses then ''IPv6AcceptRA=true'' else ''IPv6AcceptRA=false'']
     @ (if ''dhcp4'' \<in> set addresses \<and> ''dhcp6'' \<in> set addresses then [''DHCP=yes'']
        else if ''dhcp4'' \<in> set addresses then [''DHCP=ipv4'']
        else if ''dhcp6'' \<in> set addresses then [''DHCP=ipv6'']
        else [])"

definition linkLines :: "string list \<Rightarrow> string \<Rightarrow> string list" where
  "linkLines addresses requiredForOnline =
     (if addresses = [] \<or> requiredForOnline = ''no'' then [''RequiredForOnline=no'']
      else [''RequiredForOnline=yes'',
            ''RequiredFamilyForOnline='' @ (if requiredForOnline = [] then ''any'' else requiredForOnline)])"

definition networkLines ::
  "string \<Rightarrow> SystemNetworkVLAN list \<Rightarrow> SystemNetworkDNS option \<Rightarrow> SystemNetworkNTP option \<Rightarrow> string list" where
  "networkLines name vlans dns ntp =
     map (\<lambda>v. ''VLAN='' @ v_Name v) (filter (\<lambda>v. v_Parent v = name) vlans)
     @ (case dns of
          None \<Rightarrow> []
        | Some d \<Rightarrow>
            (if dns_SearchDomains d \<noteq> [] then [''Domains='' @ Join (dns_SearchDomains d) '' ''] else [])
            @ map (\<lambda>ns. ''DNS='' @ ns) (dns_Nameservers d))
     @ (case ntp of None \<Rightarrow> [] | Some n \<Rightarrow> map (\<lambda>ts. ''NTP='' @ ts) (ntp_Timeservers n))"

definition routeLines :: "SystemNetworkRoute list \<Rightarrow> string list" where
  "routeLines routes =
     concat (map (\<lambda>r. [[], ''[Route]'',
                        if r_Via r = ''dhcp4'' then ''Gateway=_dhcp4''
                        else if r_Via r = ''slaac'' then ''Gateway=_ipv6ra''
                        else ''Gateway='' @ r_Via r,
                        ''Destination='' @ r_To r]) routes)"

definition userSideLines ::
  "string \<Rightarrow> string list \<Rightarrow> string \<Rightarrow> SystemNetworkRoute list \<Rightarrow> string list \<Rightarrow> string list" where
  "userSideLines name addresses requiredForOnline routes network =
     [''[Match]'', ''Name='' @ name, [], ''[Link]'']
     @ linkLines addresses requiredForOnline
     @ [[], ''[DHCP]'', ''ClientIdentifier=mac'', ''RouteMetric=100'', ''UseMTU=true'', [], ''[Network]'']
     @ network @ addressDirectives addresses @ routeLines routes"

text \<open>
  The tag sources of a bridge, as the specification words them: the primary tag of the
  device when it is set, its trunk tags, and the ID of every declared VLAN whose parent is
  the device. \<open>bridgeVLANText\<close> is the text of the \<open>[BridgeVLAN]\<close> blocks for a primary tag
  and a list of tags: the PVID block when the primary tag is set, then one block for each
  tag.
\<close>

definition tagSources :: "string \<Rightarrow> int \<Rightarrow> int list \<Rightarrow> SystemNetworkVLAN list \<Rightarrow> int set" where
  "tagSources name primary trunk vlans =
     (if primary \<noteq> 0 then {primary} else {}) \<union> set trunk
     \<union> v_ID ` {v \<in> set vlans. v_Parent v = name}"

definition bridgeVLANText :: "int \<Rightarrow> int list \<Rightarrow> string" where
  "bridgeVLANText primary tags =
     (if primary \<noteq> 0
      then ''\<newline>[BridgeVLAN]\<newline>PVID='' @ fmtInt primary @ ''\<newline>EgressUntagged='' @ fmtInt primary @ ''\<newline>''
      else [])
     @ concat (map (\<lambda>tag. ''\<newline>[BridgeVLAN]\<newline>VLAN='' @ fmtInt tag @ ''\<newline>'') tags)"

text \<open>The hardware address of the veth device of a bond, as the specification words it.\<close>

definition bondMacAddr :: "SystemNetworkBond \<Rightarrow> string" where
  "bondMacAddr b = (if b_Hwaddr b = [] then hd (b_Members b) else b_Hwaddr b)"


text \<open>The number of sleeps in the trace of a world.\<close>

definition sleepCount :: "'p world \<Rightarrow> nat" where
  "sleepCount w = length (filter (\<lambda>ev. case ev of EvSleep _ \<Rightarrow> True | _ \<Rightarrow> False) (trace w))"


section \<open>Scenarios\<close>

text \<open>Scenario A of the specification.\<close>

definition scenarioA :: "unit SystemNetworkConfig" where
  "scenarioA =
     \<lparr>c_Interfaces = [\<lparr>i_Name = ''eth0'', i_Hwaddr = ''aa:bb:cc:dd:ee:ff'', i_MTU = 0,
                        i_Addresses = [''dhcp4''], i_Routes = [], i_VLAN = 0, i_VLANTags = [],
                        i_LLDP = False, i_RequiredForOnline = []\<rparr>],
      c_Bonds = [], c_VLANs = [], c_DNS = None, c_NTP = None, c_Proxy = ()\<rparr>"

text \<open>
  Scenario B of the specification: \<open>eth0\<close> with the primary tag 10, and two VLANs with the
  IDs 20 and 10 whose parent is \<open>eth0\<close>.
\<close>

definition scenarioB :: "unit SystemNetworkConfig" where
  "scenarioB =
     \<lparr>c_Interfaces = [\<lparr>i_Name = ''eth0'', i_Hwaddr = ''AA:BB:CC:DD:EE:FF'', i_MTU = 0,
                        i_Addresses = [''dhcp4''], i_Routes = [], i_VLAN = 10, i_VLANTags = [],
                        i_LLDP = False, i_RequiredForOnline = []\<rparr>],
      c_Bonds = [],
      c_VLANs = [\<lparr>v_Name = ''vlan20'', v_ID = 20, v_Parent = ''eth0'', v_MTU = 0, v_Addresses = [],
                   v_Routes = [], v_RequiredForOnline = []\<rparr>,
                 \<lparr>v_Name = ''vlan10'', v_ID = 10, v_Parent = ''eth0'', v_MTU = 0, v_Addresses = [],
                   v_Routes = [], v_RequiredForOnline = []\<rparr>],
      c_DNS = None, c_NTP = None, c_Proxy = ()\<rparr>"

text \<open>Scenario C of the specification: a bond with two members and no hardware address.\<close>

definition scenarioC :: "unit SystemNetworkConfig" where
  "scenarioC =
     \<lparr>c_Interfaces = [],
      c_Bonds = [\<lparr>b_Name = ''bond0'', b_Hwaddr = [], b_Members = [''aa:bb:cc:dd:ee:01'', ''aa:bb:cc:dd:ee:02''],
                   b_Mode = ''802.3ad'', b_MTU = 0, b_Addresses = [''dhcp4''], b_Routes = [], b_VLAN = 0,
                   b_VLANTags = [], b_LLDP = False, b_RequiredForOnline = []\<rparr>],
      c_VLANs = [], c_DNS = None, c_NTP = None, c_Proxy = ()\<rparr>"


text \<open>
  An environment in which \<open>networkctl\<close> always fails and every other step succeeds; no step
  takes time and the clock does not advance between two reads.
\<close>

definition envDown :: "unit env" where
  "envDown =
     \<lparr>respond = (\<lambda>w ev. case ev of
                    EvRunCommand args \<Rightarrow>
                      if args \<noteq> [] \<and> hd args = ''networkctl'' then (Inl ''exit status 1'', 0)
                      else (Inr [], 0)
                  | _ \<Rightarrow> (Inr [], 0)),
      drift = (\<lambda>w. 0),
      validateInterfaces = (\<lambda>is vs. None),
      validateBonds = (\<lambda>bs vs. None),
      validateVLANs = (\<lambda>cfg. None),
      SystemdNetworkConfigPath = ''/run/systemd/network'',
      SystemdTimesyncConfigFile = ''/run/systemd/timesyncd.conf.d/ntp.conf'',
      filepath_Join = (\<lambda>dir name. dir @ ''/'' @ name),
      ipAddressSubmatches = (\<lambda>output. [])\<rparr>"

text \<open>The world at the start: the clock at 0, nothing done yet.\<close>

definition world0 :: "unit world" where
  "world0 = \<lparr>clock = 0, trace = []\<rparr>"

text \<open>
  An environment in which \<open>networkctl\<close> reports the device online and required, and
  \<open>ip address show\<close> always fails.
\<close>

definition envNoAddress :: "unit env" where
  "envNoAddress =
     \<lparr>respond = (\<lambda>w ev. case ev of
                    EvRunCommand args \<Rightarrow>
                      if args \<noteq> [] \<and> hd args = ''ip'' then (Inl ''exit status 1'', 0)
                      else if args \<noteq> [] \<and> hd args = ''networkctl''
                      then (Inr ''Online state: online\<newline>Required For Online: yes\<newline>'', 0)
                      else (Inr [], 0)
                  | _ \<Rightarrow> (Inr [], 0)),
      drift = (\<lambda>w. 0),
      validateInterfaces = (\<lambda>is vs. None),
      validateBonds = (\<lambda>bs vs. None),
      validateVLANs = (\<lambda>cfg. None),
      SystemdNetworkConfigPath = ''/run/systemd/network'',
      SystemdTimesyncConfigFile = ''/run/systemd/timesyncd.conf.d/ntp.conf'',
      filepath_Join = (\<lambda>dir name. dir @ ''/'' @ name),
      ipAddressSubmatches = (\<lambda>output. [])\<rparr>"


text \<open>
  An environment in which the kernel log never shows a renamed interface and every other
  step succeeds at once; the clock advances by one nanosecond before every read.
\<close>

definition envNoRename :: "unit env" where
  "envNoRename =
     \<lparr>respond = (\<lambda>w ev. case ev of
                    EvRunCommand args \<Rightarrow>
                      if args \<noteq> [] \<and> hd args = ''journalctl'' then (Inl ''exit status 1'', 0)
                      else (Inr [], 0)
                  | _ \<Rightarrow> (Inr [], 0)),
      drift = (\<lambda>w. 1),
      validateInterfaces = (\<lambda>is vs. None),
      validateBonds = (\<lambda>bs vs. None),
      validateVLANs = (\<lambda>cfg. None),
      SystemdNetworkConfigPath = ''/run/systemd/network'',
      SystemdTimesyncConfigFile = ''/run/systemd/timesyncd.conf.d/ntp.conf'',
      filepath_Join = (\<lambda>dir name. dir @ ''/'' @ name),
      ipAddressSubmatches = (\<lambda>output. [])\<rparr>"

text \<open>An environment whose VLAN validator rejects every configuration.\<close>

definition envReject :: "unit env" where
  "envReject = envDown\<lparr>validateVLANs := (\<lambda>cfg. Some (ForeignError ''invalid VLAN parent''))\<rparr>"


section \<open>The generator writes the specified lines\<close>

lemma splitFrom_line:
  "CHR ''\<newline>'' \<notin> set l \<Longrightarrow> splitFrom acc (l @ CHR ''\<newline>'' # rest) = (acc @ l) # splitFrom [] rest"
  by (induction l arbitrary: acc) auto

lemma splitFrom_last:
  "CHR ''\<newline>'' \<notin> set l \<Longrightarrow> splitFrom acc l = [acc @ l]"
  by (induction l arbitrary: acc) auto

lemma unlines_append: "unlines (xs @ ys) = unlines xs @ unlines ys"
  by (simp add: unlines_def)

lemma unlines_Cons: "unlines (l # ls) = l @ CHR ''\<newline>'' # unlines ls"
  by (simp add: unlines_def)

lemma unlines_Nil: "unlines [] = []"
  by (simp add: unlines_def)

lemma splitLines_unlines:
  "\<forall>l \<in> set ls. CHR ''\<newline>'' \<notin> set l \<Longrightarrow> splitLines (unlines ls @ rest) = ls @ splitLines rest"
  unfolding splitLines_def
  by (induction ls) (simp_all add: unlines_Nil unlines_Cons splitFrom_line)

lemma foldl_addressStep:
  "foldl addressStep (ret, h4, h6, ra) addresses =
     (ret @ unlines (map (\<lambda>a. ''Address='' @ a) (literalAddresses addresses)),
      h4 \<or> ''dhcp4'' \<in> set addresses, h6 \<or> ''dhcp6'' \<in> set addresses,
      ra \<or> ''slaac'' \<in> set addresses)"
  by (induction addresses arbitrary: ret h4 h6 ra)
     (auto simp: addressStep_def literalAddresses_def unlines_def)

lemma processAddresses_unlines:
  "processAddresses addresses = unlines (addressDirectives addresses)"
  unfolding processAddresses_def Let_def foldl_addressStep addressDirectives_def
  by (simp add: unlines_append unlines_Cons unlines_Nil)

lemma addressDirectives_no_newline:
  "\<forall>a \<in> set addresses. CHR ''\<newline>'' \<notin> set a \<Longrightarrow>
   \<forall>l \<in> set (addressDirectives addresses). CHR ''\<newline>'' \<notin> set l"
  by (auto simp: addressDirectives_def literalAddresses_def)

lemma splitLines_processAddresses:
  assumes "\<forall>a \<in> set addresses. CHR ''\<newline>'' \<notin> set a"
  shows "splitLines (processAddresses addresses) = addressDirectives addresses @ [[]]"
  using splitLines_unlines[OF addressDirectives_no_newline[OF assms], of "[]"]
  by (simp add: processAddresses_unlines splitLines_def)

lemma generateLinkSectionContents_unlines:
  "generateLinkSectionContents addresses requiredForOnline @ ''\<newline>''
     = unlines (linkLines addresses requiredForOnline)"
  by (simp add: generateLinkSectionContents_def linkLines_def unlines_Cons unlines_Nil)

lemma foldl_line:
  "foldl (\<lambda>ret x. if P x then ret @ k @ f x @ ''\<newline>'' else ret) ret0 xs
     = ret0 @ unlines (map (\<lambda>x. k @ f x) (filter P xs))"
  by (induction xs arbitrary: ret0) (simp_all add: unlines_Cons unlines_Nil)

lemma foldl_line_all:
  "foldl (\<lambda>ret x. ret @ k @ x @ ''\<newline>'') ret0 xs = ret0 @ unlines (map (\<lambda>x. k @ x) xs)"
  by (induction xs arbitrary: ret0) (simp_all add: unlines_Cons unlines_Nil)

lemma generateNetworkSectionContents_unlines:
  "generateNetworkSectionContents name vlans dns ntp = unlines (networkLines name vlans dns ntp)"
  unfolding generateNetworkSectionContents_def Let_def networkLines_def foldl_line foldl_line_all
  by (simp add: unlines_append unlines_Cons unlines_Nil split: option.splits)

lemma routeLines_Nil: "routeLines [] = []"
  by (simp add: routeLines_def)

lemma foldl_routeStep:
  "foldl routeStep ret routes = ret @ unlines (routeLines routes)"
  by (induction routes arbitrary: ret)
     (simp_all add: routeLines_def routeStep_def Let_def unlines_append unlines_Cons unlines_Nil)

lemma processRoutes_unlines: "processRoutes routes = unlines (routeLines routes)"
  by (simp add: processRoutes_def foldl_routeStep)

lemma userSideNetwork_unlines:
  "userSideNetwork name addresses requiredForOnline routes (unlines network)
     = unlines (userSideLines name addresses requiredForOnline routes network)"
proof -
  have link: "\<And>rest. generateLinkSectionContents addresses requiredForOnline @ CHR ''\<newline>'' # rest
      = unlines (linkLines addresses requiredForOnline) @ rest"
    using generateLinkSectionContents_unlines[of addresses requiredForOnline] by (metis append_Cons append_Nil append_assoc)
  show ?thesis
    unfolding userSideNetwork_def Let_def userSideLines_def processAddresses_unlines processRoutes_unlines
    by (auto simp add: unlines_append unlines_Cons unlines_Nil link routeLines_Nil)
qed

lemma splitLines_unlines_all:
  "\<forall>l \<in> set ls. singleLine l \<Longrightarrow> splitLines (unlines ls) = ls @ [[]]"
  using splitLines_unlines[of ls "[]"] by (simp add: singleLine_def splitLines_def)

lemma linkLines_no_bracket: "l \<in> set (linkLines a r) \<Longrightarrow> \<not> HasPrefix l ''['' \<and> l \<noteq> ''[Network]'' \<and> l \<noteq> ''[Link]''"
  by (auto simp: linkLines_def HasPrefix_def split: if_splits)

lemma addressDirectives_no_bracket: "l \<in> set (addressDirectives a) \<Longrightarrow> \<not> HasPrefix l ''[''"
  by (auto simp: addressDirectives_def HasPrefix_def split: if_splits)

lemma networkLines_no_bracket: "l \<in> set (networkLines n vl dns ntp) \<Longrightarrow> \<not> HasPrefix l ''[''"
  by (auto simp: networkLines_def HasPrefix_def split: if_splits option.splits)

lemma linkLines_nonblank: "filter (\<lambda>l. l \<noteq> []) (linkLines a r) = linkLines a r"
  by (simp add: linkLines_def)

lemma addressDirectives_nonblank: "filter (\<lambda>l. l \<noteq> []) (addressDirectives a) = addressDirectives a"
  by (auto simp: addressDirectives_def intro: filter_True)

lemma routeLines_shape: "routeLines routes = [] \<or> (\<exists>rest. routeLines routes = [] # ''[Route]'' # rest)"
  by (cases routes) (auto simp: routeLines_def)

lemma sectionLines_Link:
  assumes "\<forall>l \<in> set (userSideLines n a r routes N). singleLine l"
  shows "sectionLines ''Link'' (unlines (userSideLines n a r routes N)) = linkLines a r"
proof -
  have tw: "takeWhile (\<lambda>l. \<not> HasPrefix l ''['') (linkLines a r @ [] # ''[DHCP]'' # rest) = linkLines a r @ [[]]" for rest
    using linkLines_no_bracket[of _ a r] by (simp add: takeWhile_append2 HasPrefix_def)
  show ?thesis
    unfolding sectionLines_def splitLines_unlines_all[OF assms]
    by (simp add: userSideLines_def tw linkLines_nonblank)
qed

lemma sectionLines_Network:
  assumes "\<forall>l \<in> set (userSideLines n a r routes N). singleLine l"
    and "\<forall>l \<in> set N. \<not> HasPrefix l ''[''"
  shows "sectionLines ''Network'' (unlines (userSideLines n a r routes N))
      = filter (\<lambda>l. l \<noteq> []) N @ addressDirectives a"
proof -
  have dw: "dropWhile (\<lambda>l. l \<noteq> ''[Network]'') (linkLines a r @ rest) = dropWhile (\<lambda>l. l \<noteq> ''[Network]'') rest" for rest
    using linkLines_no_bracket[of _ a r] by (simp add: dropWhile_append2)
  have body: "\<forall>l \<in> set (N @ addressDirectives a). \<not> HasPrefix l ''[''"
    using assms(2) addressDirectives_no_bracket[of _ a] by auto
  have tail: "takeWhile (\<lambda>l. \<not> HasPrefix l ''['') (routeLines routes @ [[]]) = [[]]"
    using routeLines_shape[of routes] by (auto simp: HasPrefix_def)
  have "takeWhile (\<lambda>l. \<not> HasPrefix l ''['') ((N @ addressDirectives a) @ routeLines routes @ [[]])
      = (N @ addressDirectives a) @ takeWhile (\<lambda>l. \<not> HasPrefix l ''['') (routeLines routes @ [[]])"
    using body by (intro takeWhile_append2) blast
  then have tw: "takeWhile (\<lambda>l. \<not> HasPrefix l ''['') (N @ addressDirectives a @ routeLines routes @ [[]])
      = N @ addressDirectives a @ [[]]"
    using tail by simp
  show ?thesis
    unfolding sectionLines_def splitLines_unlines_all[OF assms(1)]
    using tw by (simp add: userSideLines_def dw addressDirectives_nonblank)
qed

lemma device_user_file:
  assumes "dev \<in> set (devices cfg)"
  shows "\<lparr>Name = networkFileName dev,
          Contents = userSideNetwork (deviceName dev) (deviceAddresses dev) (deviceRequiredForOnline dev)
            (deviceRoutes dev)
            (generateNetworkSectionContents (deviceName dev) (deviceVLANs cfg dev) (c_DNS cfg) (c_NTP cfg))\<rparr>
         \<in> set (generateNetworkFileContents cfg)"
proof (cases dev)
  case (Interface i)
  then have "i \<in> set (c_Interfaces cfg)" using assms by (auto simp: devices_def)
  then show ?thesis
    unfolding generateNetworkFileContents_def using Interface
    by (auto simp: interfaceNetworks_def Let_def intro!: bexI[of _ i])
next
  case (Bond b)
  then have "b \<in> set (c_Bonds cfg)" using assms by (auto simp: devices_def)
  then show ?thesis
    unfolding generateNetworkFileContents_def using Bond
    by (auto simp: bondNetworks_def Let_def intro!: bexI[of _ b])
next
  case (VLAN v)
  then have "v \<in> set (c_VLANs cfg)" using assms by (auto simp: devices_def)
  then show ?thesis
    unfolding generateNetworkFileContents_def using VLAN
    by (auto simp: vlanNetwork_def image_iff intro!: bexI[of _ v])
qed

lemma singleLine_Join:
  "list_all singleLine xs \<Longrightarrow> singleLine sep \<Longrightarrow> singleLine (Join xs sep)"
  by (induction xs sep rule: Join.induct) (auto simp: singleLine_def)

lemma networkLines_singleLine:
  assumes "plainConfig cfg"
  shows "\<forall>l \<in> set (networkLines (deviceName dev) (deviceVLANs cfg dev) (c_DNS cfg) (c_NTP cfg)). singleLine l"
proof -
  have vl: "\<forall>v \<in> set (deviceVLANs cfg dev). singleLine (v_Name v)"
  proof
    fix v assume "v \<in> set (deviceVLANs cfg dev)"
    then have "VLAN v \<in> set (devices cfg)" by (cases dev) (auto simp: devices_def)
    then have "plainDevice (VLAN v)" using assms by (auto simp: plainConfig_def list_all_iff)
    then show "singleLine (v_Name v)" by (simp add: plainDevice_def)
  qed
  have j: "\<And>d. c_DNS cfg = Some d \<Longrightarrow> singleLine (Join (dns_SearchDomains d) '' '')"
    using assms by (auto simp: plainConfig_def intro!: singleLine_Join) (simp add: singleLine_def)
  show ?thesis
    using assms vl j unfolding networkLines_def plainConfig_def
    by (auto simp: list_all_iff split: option.splits) (auto simp: singleLine_def)
qed

lemma linkLines_singleLine:
  "singleLine r \<Longrightarrow> \<forall>l \<in> set (linkLines a r). singleLine l"
  by (auto simp: linkLines_def singleLine_def)

lemma addressDirectives_singleLine:
  "list_all singleLine a \<Longrightarrow> \<forall>l \<in> set (addressDirectives a). singleLine l"
  by (auto simp: addressDirectives_def literalAddresses_def singleLine_def list_all_iff)

lemma routeLines_singleLine:
  "list_all (\<lambda>r. singleLine (r_Via r) \<and> singleLine (r_To r)) routes
   \<Longrightarrow> \<forall>l \<in> set (routeLines routes). singleLine l"
  by (auto simp: routeLines_def singleLine_def list_all_iff split: if_splits)

lemma userSideLines_singleLine:
  assumes "plainDevice dev" and "\<forall>l \<in> set N. singleLine l"
  shows "\<forall>l \<in> set (userSideLines (deviceName dev) (deviceAddresses dev) (deviceRequiredForOnline dev)
            (deviceRoutes dev) N). singleLine l"
proof -
  have "singleLine (''Name='' @ deviceName dev)"
    using assms(1) by (simp add: plainDevice_def singleLine_def)
  moreover have "\<forall>l \<in> set (linkLines (deviceAddresses dev) (deviceRequiredForOnline dev)). singleLine l"
    using assms(1) by (intro linkLines_singleLine) (simp add: plainDevice_def)
  moreover have "\<forall>l \<in> set (addressDirectives (deviceAddresses dev)). singleLine l"
    using assms(1) by (intro addressDirectives_singleLine) (simp add: plainDevice_def)
  moreover have "\<forall>l \<in> set (routeLines (deviceRoutes dev)). singleLine l"
    using assms(1) by (intro routeLines_singleLine) (simp add: plainDevice_def)
  ultimately show ?thesis
    using assms(2) unfolding userSideLines_def
    by (auto simp: singleLine_def)
qed

text \<open>The lines of the two sections of a device's network file.\<close>

lemma device_sections:
  assumes "plainConfig cfg" and "dev \<in> set (devices cfg)"
  shows "\<exists>f \<in> set (generateNetworkFileContents cfg).
           Name f = networkFileName dev
           \<and> sectionLines ''Link'' (Contents f)
               = linkLines (deviceAddresses dev) (deviceRequiredForOnline dev)
           \<and> sectionLines ''Network'' (Contents f)
               = networkLines (deviceName dev) (deviceVLANs cfg dev) (c_DNS cfg) (c_NTP cfg)
                 @ addressDirectives (deviceAddresses dev)"
proof -
  let ?N = "networkLines (deviceName dev) (deviceVLANs cfg dev) (c_DNS cfg) (c_NTP cfg)"
  let ?L = "userSideLines (deviceName dev) (deviceAddresses dev) (deviceRequiredForOnline dev)
              (deviceRoutes dev) ?N"
  let ?f = "\<lparr>Name = networkFileName dev, Contents = unlines ?L\<rparr>"
  have mem: "?f \<in> set (generateNetworkFileContents cfg)"
    using device_user_file[OF assms(2)]
    by (simp add: generateNetworkSectionContents_unlines userSideNetwork_unlines)
  have "plainDevice dev"
    using assms by (auto simp: plainConfig_def list_all_iff)
  then have sl: "\<forall>l \<in> set ?L. singleLine l"
    using networkLines_singleLine[OF assms(1)] by (intro userSideLines_singleLine) auto
  have nb: "\<forall>l \<in> set ?N. \<not> HasPrefix l ''[''"
    using networkLines_no_bracket by blast
  have nonblank: "filter (\<lambda>l. l \<noteq> []) ?N = ?N"
    by (auto simp: networkLines_def intro!: filter_True split: option.splits)
  have "sectionLines ''Link'' (Contents ?f) = linkLines (deviceAddresses dev) (deviceRequiredForOnline dev)"
    using sectionLines_Link[OF sl] by simp
  moreover have "sectionLines ''Network'' (Contents ?f) = ?N @ addressDirectives (deviceAddresses dev)"
    using sectionLines_Network[OF sl nb] nonblank by simp
  ultimately show ?thesis using mem by (intro bexI[of _ ?f]) simp_all
qed


section \<open>The addressing and link directives of a device\<close>

lemma networkLines_no_DHCP:
  "filter (\<lambda>l. HasPrefix l ''DHCP='') (networkLines n vl dns ntp) = []"
  by (auto simp: networkLines_def HasPrefix_def filter_empty_conv split: option.splits)

lemma networkLines_no_LinkLocal:
  "filter (\<lambda>l. HasPrefix l ''LinkLocalAddressing='') (networkLines n vl dns ntp) = []"
  by (auto simp: networkLines_def HasPrefix_def filter_empty_conv split: option.splits)

lemma networkLines_no_Carrier:
  "filter (\<lambda>l. HasPrefix l ''ConfigureWithoutCarrier='') (networkLines n vl dns ntp) = []"
  by (auto simp: networkLines_def HasPrefix_def filter_empty_conv split: option.splits)

lemma addressDirectives_DHCP:
  "filter (\<lambda>l. HasPrefix l ''DHCP='') (addressDirectives a) =
     (if ''dhcp4'' \<in> set a \<and> ''dhcp6'' \<in> set a then [''DHCP=yes'']
      else if ''dhcp4'' \<in> set a then [''DHCP=ipv4'']
      else if ''dhcp6'' \<in> set a then [''DHCP=ipv6'']
      else [])"
  by (simp add: addressDirectives_def HasPrefix_def)

lemma addressDirectives_LinkLocal:
  "filter (\<lambda>l. HasPrefix l ''LinkLocalAddressing='') (addressDirectives a) =
     (if a = [] then [''LinkLocalAddressing=no''] else [''LinkLocalAddressing=ipv6''])"
  by (simp add: addressDirectives_def HasPrefix_def)

lemma addressDirectives_Carrier:
  "filter (\<lambda>l. HasPrefix l ''ConfigureWithoutCarrier='') (addressDirectives a) =
     (if a = [] then [''ConfigureWithoutCarrier=yes''] else [])"
  by (simp add: addressDirectives_def HasPrefix_def)

text \<open>
  Claim C1. For every device (interface, bond or VLAN) of a plain configuration, the
  generator writes a network file for the device whose \<open>[Network]\<close> section has exactly
  one DHCP directive, \<open>DHCP=yes\<close>, when the address list holds both \<open>dhcp4\<close> and
  \<open>dhcp6\<close>; exactly \<open>DHCP=ipv4\<close> when it holds \<open>dhcp4\<close> but not \<open>dhcp6\<close>; exactly
  \<open>DHCP=ipv6\<close> when it holds \<open>dhcp6\<close> but not \<open>dhcp4\<close>; and no DHCP directive when it
  holds neither (the empty list, or literal addresses only).
\<close>

theorem dhcp_directive_law:
  assumes "plainConfig cfg" and "dev \<in> set (devices cfg)"
  shows "\<exists>f \<in> set (generateNetworkFileContents cfg).
           Name f = networkFileName dev
           \<and> sectionDirectives ''Network'' ''DHCP'' (Contents f) =
               (if ''dhcp4'' \<in> set (deviceAddresses dev) \<and> ''dhcp6'' \<in> set (deviceAddresses dev)
                then [''DHCP=yes'']
                else if ''dhcp4'' \<in> set (deviceAddresses dev) then [''DHCP=ipv4'']
                else if ''dhcp6'' \<in> set (deviceAddresses dev) then [''DHCP=ipv6'']
                else [])"
proof -
  obtain f where f: "f \<in> set (generateNetworkFileContents cfg)" "Name f = networkFileName dev"
    and net: "sectionLines ''Network'' (Contents f)
               = networkLines (deviceName dev) (deviceVLANs cfg dev) (c_DNS cfg) (c_NTP cfg)
                 @ addressDirectives (deviceAddresses dev)"
    using device_sections[OF assms] by blast
  have "sectionDirectives ''Network'' ''DHCP'' (Contents f)
      = filter (\<lambda>l. HasPrefix l ''DHCP='') (addressDirectives (deviceAddresses dev))"
    unfolding sectionDirectives_def net using networkLines_no_DHCP by simp
  then show ?thesis
    using f addressDirectives_DHCP by (intro bexI[of _ f]) simp_all
qed

text \<open>
  Scenario A of the specification: one interface \<open>eth0\<close> with the address list
  \<open>[dhcp4]\<close>.
\<close>

theorem dhcp_directive_law_witness:
  "plainConfig scenarioA \<and> Interface (hd (c_Interfaces scenarioA)) \<in> set (devices scenarioA)
   \<and> (\<exists>f \<in> set (generateNetworkFileContents scenarioA).
         Name f = ''20-eth0.network''
         \<and> sectionDirectives ''Network'' ''DHCP'' (Contents f) = [''DHCP=ipv4''])"
proof -
  have p: "plainConfig scenarioA"
    by (simp add: plainConfig_def scenarioA_def devices_def plainDevice_def singleLine_def)
  have d: "Interface (hd (c_Interfaces scenarioA)) \<in> set (devices scenarioA)"
    by (simp add: scenarioA_def devices_def)
  show ?thesis
    using p d dhcp_directive_law[OF p d] by (simp add: scenarioA_def)
qed


text \<open>
  Claim C3. For every device of a plain configuration, the \<open>[Link]\<close> section of its network
  file is the single line \<open>RequiredForOnline=no\<close> exactly when the address list is empty or
  the policy is the string \<open>no\<close>; it is \<open>RequiredForOnline=yes\<close> with
  \<open>RequiredFamilyForOnline=any\<close> when the policy is unset and there is an address; and
  otherwise \<open>RequiredForOnline=yes\<close> with the policy as the family.
\<close>

theorem required_for_online_law:
  assumes "plainConfig cfg" and "dev \<in> set (devices cfg)"
  shows "\<exists>f \<in> set (generateNetworkFileContents cfg).
           Name f = networkFileName dev
           \<and> sectionLines ''Link'' (Contents f) =
               (if deviceAddresses dev = [] \<or> deviceRequiredForOnline dev = ''no''
                then [''RequiredForOnline=no'']
                else if deviceRequiredForOnline dev = []
                then [''RequiredForOnline=yes'', ''RequiredFamilyForOnline=any'']
                else [''RequiredForOnline=yes'', ''RequiredFamilyForOnline='' @ deviceRequiredForOnline dev])"
proof -
  obtain f where f: "f \<in> set (generateNetworkFileContents cfg)" "Name f = networkFileName dev"
    and link: "sectionLines ''Link'' (Contents f)
               = linkLines (deviceAddresses dev) (deviceRequiredForOnline dev)"
    using device_sections[OF assms] by blast
  show ?thesis
    using f link by (intro bexI[of _ f]) (simp_all add: linkLines_def)
qed

theorem required_for_online_law_witness:
  "plainConfig scenarioA \<and> Interface (hd (c_Interfaces scenarioA)) \<in> set (devices scenarioA)
   \<and> (\<exists>f \<in> set (generateNetworkFileContents scenarioA).
         Name f = ''20-eth0.network''
         \<and> sectionLines ''Link'' (Contents f) = [''RequiredForOnline=yes'', ''RequiredFamilyForOnline=any''])"
proof -
  have p: "plainConfig scenarioA"
    by (simp add: plainConfig_def scenarioA_def devices_def plainDevice_def singleLine_def)
  have d: "Interface (hd (c_Interfaces scenarioA)) \<in> set (devices scenarioA)"
    by (simp add: scenarioA_def devices_def)
  show ?thesis
    using p d required_for_online_law[OF p d] by (simp add: scenarioA_def)
qed

text \<open>
  Claim C4, as the code has it. For every device of a plain configuration, the
  \<open>[Network]\<close> section of its network file has \<open>LinkLocalAddressing=ipv6\<close> exactly when the
  address list is not empty, whatever its tokens (\<open>dhcp4\<close>, \<open>dhcp6\<close>, \<open>slaac\<close> or a
  literal address); when the list is empty it has \<open>LinkLocalAddressing=no\<close> together with
  \<open>ConfigureWithoutCarrier=yes\<close>.
\<close>

theorem link_local_law:
  assumes "plainConfig cfg" and "dev \<in> set (devices cfg)"
  shows "\<exists>f \<in> set (generateNetworkFileContents cfg).
           Name f = networkFileName dev
           \<and> sectionDirectives ''Network'' ''LinkLocalAddressing'' (Contents f) =
               (if deviceAddresses dev = [] then [''LinkLocalAddressing=no'']
                else [''LinkLocalAddressing=ipv6''])
           \<and> sectionDirectives ''Network'' ''ConfigureWithoutCarrier'' (Contents f) =
               (if deviceAddresses dev = [] then [''ConfigureWithoutCarrier=yes''] else [])"
proof -
  obtain f where f: "f \<in> set (generateNetworkFileContents cfg)" "Name f = networkFileName dev"
    and net: "sectionLines ''Network'' (Contents f)
               = networkLines (deviceName dev) (deviceVLANs cfg dev) (c_DNS cfg) (c_NTP cfg)
                 @ addressDirectives (deviceAddresses dev)"
    using device_sections[OF assms] by blast
  have "sectionDirectives ''Network'' ''LinkLocalAddressing'' (Contents f)
      = filter (\<lambda>l. HasPrefix l ''LinkLocalAddressing='') (addressDirectives (deviceAddresses dev))"
    unfolding sectionDirectives_def net using networkLines_no_LinkLocal by simp
  moreover have "sectionDirectives ''Network'' ''ConfigureWithoutCarrier'' (Contents f)
      = filter (\<lambda>l. HasPrefix l ''ConfigureWithoutCarrier='') (addressDirectives (deviceAddresses dev))"
    unfolding sectionDirectives_def net using networkLines_no_Carrier by simp
  ultimately show ?thesis
    using f addressDirectives_LinkLocal addressDirectives_Carrier by (intro bexI[of _ f]) simp_all
qed

theorem link_local_law_witness:
  "plainConfig scenarioA \<and> Interface (hd (c_Interfaces scenarioA)) \<in> set (devices scenarioA)
   \<and> (\<exists>f \<in> set (generateNetworkFileContents scenarioA).
         Name f = ''20-eth0.network''
         \<and> sectionDirectives ''Network'' ''LinkLocalAddressing'' (Contents f) = [''LinkLocalAddressing=ipv6'']
         \<and> sectionDirectives ''Network'' ''ConfigureWithoutCarrier'' (Contents f) = [])"
proof -
  have p: "plainConfig scenarioA"
    by (simp add: plainConfig_def scenarioA_def devices_def plainDevice_def singleLine_def)
  have d: "Interface (hd (c_Interfaces scenarioA)) \<in> set (devices scenarioA)"
    by (simp add: scenarioA_def devices_def)
  show ?thesis
    using p d link_local_law[OF p d] by (simp add: scenarioA_def)
qed

text \<open>
  Claim C4 as stated says that \<open>LinkLocalAddressing=ipv6\<close> is written only when the address
  list holds a literal address. In scenario A the list of \<open>eth0\<close> is \<open>[dhcp4]\<close>, which
  holds no literal address, and the network file of \<open>eth0\<close> has
  \<open>LinkLocalAddressing=ipv6\<close>.
\<close>

theorem link_local_only_literal_counterexample:
  "literalAddresses (i_Addresses (hd (c_Interfaces scenarioA))) = []
   \<and> Contents (hd (generateNetworkFileContents scenarioA)) =
       ''[Match]\<newline>Name=eth0\<newline>\<newline>[Link]\<newline>RequiredForOnline=yes\<newline>RequiredFamilyForOnline=any\<newline>\<newline>[DHCP]\<newline>ClientIdentifier=mac\<newline>RouteMetric=100\<newline>UseMTU=true\<newline>\<newline>[Network]\<newline>LinkLocalAddressing=ipv6\<newline>IPv6AcceptRA=false\<newline>DHCP=ipv4\<newline>''
   \<and> sectionDirectives ''Network'' ''LinkLocalAddressing'' (Contents (hd (generateNetworkFileContents scenarioA)))
       = [''LinkLocalAddressing=ipv6'']"
  by (simp add: scenarioA_def literalAddresses_def generateNetworkFileContents_def interfaceNetworks_def
      userSideNetwork_def generateLinkSectionContents_def generateNetworkSectionContents_def
      processAddresses_def addressStep_def Let_def sectionDirectives_def sectionLines_def splitLines_def
      HasPrefix_def)


section \<open>VLAN tags of a bridge and the hardware address of a bond\<close>

lemma sorted_distinct_remdups_adj: "sorted xs \<Longrightarrow> distinct (remdups_adj xs)"
  by (induction xs rule: remdups_adj.induct) (auto split: if_splits)

lemma Compact_Sort: "slices_Compact (slices_Sort xs) = sorted_list_of_set (set xs)"
proof -
  have "sorted (remdups_adj (sort xs))" by simp
  moreover have "distinct (remdups_adj (sort xs))" by (simp add: sorted_distinct_remdups_adj)
  moreover have "set (remdups_adj (sort xs)) = set xs" by simp
  ultimately show ?thesis
    unfolding slices_Compact_def slices_Sort_def
    by (metis sorted_list_of_set.idem_if_sorted_distinct)
qed

lemma foldl_tags:
  "foldl (\<lambda>tags vlan. if v_Parent vlan = name then tags @ [v_ID vlan] else tags) tags0 vlans
     = tags0 @ map v_ID (filter (\<lambda>v. v_Parent v = name) vlans)"
  by (induction vlans arbitrary: tags0) simp_all

lemma bridgeVLANTags_sources:
  "bridgeVLANTags name primary trunk vlans = sorted_list_of_set (tagSources name primary trunk vlans)"
proof -
  have "set ((if primary \<noteq> 0 then [primary] else []) @ trunk
             @ map v_ID (filter (\<lambda>v. v_Parent v = name) vlans))
        = tagSources name primary trunk vlans"
    by (auto simp: tagSources_def)
  then show ?thesis
    unfolding bridgeVLANTags_def Let_def foldl_tags Compact_Sort by simp
qed

lemma foldl_blocks:
  "foldl (\<lambda>ret tag. ret @ ''\<newline>[BridgeVLAN]\<newline>'' @ ''VLAN='' @ fmtInt tag @ ''\<newline>'') ret0 tags
     = ret0 @ concat (map (\<lambda>tag. ''\<newline>[BridgeVLAN]\<newline>VLAN='' @ fmtInt tag @ ''\<newline>'') tags)"
  by (induction tags arbitrary: ret0) simp_all

lemma generateBridgeVLANContents_text:
  "generateBridgeVLANContents name primary trunk vlans
     = bridgeVLANText primary (sorted_list_of_set (tagSources name primary trunk vlans))"
proof (cases "bridgeVLANTags name primary trunk vlans = []")
  case True
  then have e: "sorted_list_of_set (tagSources name primary trunk vlans) = []"
    by (simp add: bridgeVLANTags_sources)
  have "finite (tagSources name primary trunk vlans)" by (simp add: tagSources_def)
  then have "tagSources name primary trunk vlans = {}"
    using e by (simp add: sorted_list_of_set_eq_Nil_iff)
  then have "primary = 0" by (auto simp: tagSources_def split: if_splits)
  then show ?thesis
    using True e unfolding generateBridgeVLANContents_def Let_def bridgeVLANText_def by simp
next
  case False
  then have "generateBridgeVLANContents name primary trunk vlans
      = bridgeVLANText primary (bridgeVLANTags name primary trunk vlans)"
    unfolding generateBridgeVLANContents_def Let_def foldl_blocks
    by (simp add: bridgeVLANText_def)
  then show ?thesis
    by (simp only: bridgeVLANTags_sources)
qed

lemma interface_bridge_files:
  assumes "i \<in> set (c_Interfaces cfg)"
  shows "\<lparr>Name = ''20-vt'' @ i_Name i @ ''.network'',
          Contents = ''[Match]\<newline>Name=vt'' @ i_Name i @ ''\<newline>\<newline>[Network]\<newline>Bridge=br'' @ i_Name i @ ''\<newline>''
            @ generateBridgeVLANContents (i_Name i) (i_VLAN i) (i_VLANTags i) (c_VLANs cfg)\<rparr>
         \<in> set (generateNetworkFileContents cfg)"
    and "\<lparr>Name = ''20-en'' @ ToLower (stripColons (i_Hwaddr i)) @ ''.network'',
          Contents = ''[Match]\<newline>Name=en'' @ ToLower (stripColons (i_Hwaddr i))
            @ ''\<newline>\<newline>[Network]\<newline>LLDP='' @ FormatBool (i_LLDP i) @ ''\<newline>EmitLLDP='' @ FormatBool (i_LLDP i)
            @ ''\<newline>Bridge=br'' @ i_Name i @ ''\<newline>''
            @ generateBridgeVLANContents (i_Name i) (i_VLAN i) (i_VLANTags i) (c_VLANs cfg)\<rparr>
         \<in> set (generateNetworkFileContents cfg)"
  using assms unfolding generateNetworkFileContents_def
  by (auto simp: interfaceNetworks_def Let_def intro!: bexI[of _ i])

lemma bond_bridge_files:
  assumes "b \<in> set (c_Bonds cfg)"
  shows "\<lparr>Name = ''21-vt'' @ b_Name b @ ''.network'',
          Contents = ''[Match]\<newline>Name=vt'' @ b_Name b @ ''\<newline>\<newline>[Network]\<newline>Bridge=br'' @ b_Name b @ ''\<newline>''
            @ generateBridgeVLANContents (b_Name b) (b_VLAN b) (b_VLANTags b) (c_VLANs cfg)\<rparr>
         \<in> set (generateNetworkFileContents cfg)"
    and "\<lparr>Name = ''21-bn'' @ b_Name b @ ''.network'',
          Contents = ''[Match]\<newline>Name=bn'' @ b_Name b
            @ ''\<newline>\<newline>[Network]\<newline>LinkLocalAddressing=no\<newline>ConfigureWithoutCarrier=yes\<newline>Bridge=br''
            @ b_Name b @ ''\<newline>''
            @ generateBridgeVLANContents (b_Name b) (b_VLAN b) (b_VLANTags b) (c_VLANs cfg)\<rparr>
         \<in> set (generateNetworkFileContents cfg)"
  using assms unfolding generateNetworkFileContents_def
  by (auto simp: bondNetworks_def Let_def intro!: bexI[of _ b])

text \<open>
  Claim C2. The tag list of a bridge after \<open>slices.Compact\<close> is the ascending,
  duplicate-free list of the union of the three sources: the primary tag of the device
  when it is set, its trunk tags, and the ID of every declared VLAN whose parent is the
  device. The text \<open>generateBridgeVLANContents\<close> returns is, when a primary tag is set, the
  PVID/EgressUntagged block of that tag, followed by one \<open>[BridgeVLAN]\<close> block for each tag
  of that list, in order. For every interface the two bridge-facing files (the \<open>vt\<close> side of
  the veth pair and the underlying \<open>en\<close> device), and for every bond the \<open>vt\<close> side and the
  \<open>bn\<close> device, are generated with exactly this text after their \<open>[Network]\<close> section.
\<close>

theorem vlan_aggregation_law:
  "bridgeVLANTags name primary trunk vlans = sorted_list_of_set (tagSources name primary trunk vlans)
   \<and> generateBridgeVLANContents name primary trunk vlans
       = bridgeVLANText primary (sorted_list_of_set (tagSources name primary trunk vlans))
   \<and> (\<forall>i \<in> set (c_Interfaces cfg).
         \<exists>f \<in> set (generateNetworkFileContents cfg). \<exists>g \<in> set (generateNetworkFileContents cfg).
           Name f = ''20-vt'' @ i_Name i @ ''.network''
           \<and> Contents f = ''[Match]\<newline>Name=vt'' @ i_Name i @ ''\<newline>\<newline>[Network]\<newline>Bridge=br'' @ i_Name i @ ''\<newline>''
                @ bridgeVLANText (i_VLAN i)
                    (sorted_list_of_set (tagSources (i_Name i) (i_VLAN i) (i_VLANTags i) (c_VLANs cfg)))
           \<and> Name g = ''20-en'' @ ToLower (stripColons (i_Hwaddr i)) @ ''.network''
           \<and> Contents g = ''[Match]\<newline>Name=en'' @ ToLower (stripColons (i_Hwaddr i))
                @ ''\<newline>\<newline>[Network]\<newline>LLDP='' @ FormatBool (i_LLDP i) @ ''\<newline>EmitLLDP='' @ FormatBool (i_LLDP i)
                @ ''\<newline>Bridge=br'' @ i_Name i @ ''\<newline>''
                @ bridgeVLANText (i_VLAN i)
                    (sorted_list_of_set (tagSources (i_Name i) (i_VLAN i) (i_VLANTags i) (c_VLANs cfg))))
   \<and> (\<forall>b \<in> set (c_Bonds cfg).
         \<exists>f \<in> set (generateNetworkFileContents cfg). \<exists>g \<in> set (generateNetworkFileContents cfg).
           Name f = ''21-vt'' @ b_Name b @ ''.network''
           \<and> Contents f = ''[Match]\<newline>Name=vt'' @ b_Name b @ ''\<newline>\<newline>[Network]\<newline>Bridge=br'' @ b_Name b @ ''\<newline>''
                @ bridgeVLANText (b_VLAN b)
                    (sorted_list_of_set (tagSources (b_Name b) (b_VLAN b) (b_VLANTags b) (c_VLANs cfg)))
           \<and> Name g = ''21-bn'' @ b_Name b @ ''.network''
           \<and> Contents g = ''[Match]\<newline>Name=bn'' @ b_Name b
                @ ''\<newline>\<newline>[Network]\<newline>LinkLocalAddressing=no\<newline>ConfigureWithoutCarrier=yes\<newline>Bridge=br''
                @ b_Name b @ ''\<newline>''
                @ bridgeVLANText (b_VLAN b)
                    (sorted_list_of_set (tagSources (b_Name b) (b_VLAN b) (b_VLANTags b) (c_VLANs cfg))))"
proof (intro conjI ballI)
  show "bridgeVLANTags name primary trunk vlans = sorted_list_of_set (tagSources name primary trunk vlans)"
    by (rule bridgeVLANTags_sources)
  show "generateBridgeVLANContents name primary trunk vlans
       = bridgeVLANText primary (sorted_list_of_set (tagSources name primary trunk vlans))"
    by (rule generateBridgeVLANContents_text)
next
  fix i assume i: "i \<in> set (c_Interfaces cfg)"
  show "\<exists>f \<in> set (generateNetworkFileContents cfg). \<exists>g \<in> set (generateNetworkFileContents cfg).
           Name f = ''20-vt'' @ i_Name i @ ''.network''
           \<and> Contents f = ''[Match]\<newline>Name=vt'' @ i_Name i @ ''\<newline>\<newline>[Network]\<newline>Bridge=br'' @ i_Name i @ ''\<newline>''
                @ bridgeVLANText (i_VLAN i)
                    (sorted_list_of_set (tagSources (i_Name i) (i_VLAN i) (i_VLANTags i) (c_VLANs cfg)))
           \<and> Name g = ''20-en'' @ ToLower (stripColons (i_Hwaddr i)) @ ''.network''
           \<and> Contents g = ''[Match]\<newline>Name=en'' @ ToLower (stripColons (i_Hwaddr i))
                @ ''\<newline>\<newline>[Network]\<newline>LLDP='' @ FormatBool (i_LLDP i) @ ''\<newline>EmitLLDP='' @ FormatBool (i_LLDP i)
                @ ''\<newline>Bridge=br'' @ i_Name i @ ''\<newline>''
                @ bridgeVLANText (i_VLAN i)
                    (sorted_list_of_set (tagSources (i_Name i) (i_VLAN i) (i_VLANTags i) (c_VLANs cfg)))"
    by (rule bexI[OF _ interface_bridge_files(1)[OF i]], rule bexI[OF _ interface_bridge_files(2)[OF i]])
       (simp add: generateBridgeVLANContents_text)
next
  fix b assume b: "b \<in> set (c_Bonds cfg)"
  show "\<exists>f \<in> set (generateNetworkFileContents cfg). \<exists>g \<in> set (generateNetworkFileContents cfg).
           Name f = ''21-vt'' @ b_Name b @ ''.network''
           \<and> Contents f = ''[Match]\<newline>Name=vt'' @ b_Name b @ ''\<newline>\<newline>[Network]\<newline>Bridge=br'' @ b_Name b @ ''\<newline>''
                @ bridgeVLANText (b_VLAN b)
                    (sorted_list_of_set (tagSources (b_Name b) (b_VLAN b) (b_VLANTags b) (c_VLANs cfg)))
           \<and> Name g = ''21-bn'' @ b_Name b @ ''.network''
           \<and> Contents g = ''[Match]\<newline>Name=bn'' @ b_Name b
                @ ''\<newline>\<newline>[Network]\<newline>LinkLocalAddressing=no\<newline>ConfigureWithoutCarrier=yes\<newline>Bridge=br''
                @ b_Name b @ ''\<newline>''
                @ bridgeVLANText (b_VLAN b)
                    (sorted_list_of_set (tagSources (b_Name b) (b_VLAN b) (b_VLANTags b) (c_VLANs cfg)))"
    by (rule bexI[OF _ bond_bridge_files(1)[OF b]], rule bexI[OF _ bond_bridge_files(2)[OF b]])
       (simp add: generateBridgeVLANContents_text)
qed

text \<open>
  Scenario B of the specification: \<open>eth0\<close> with the primary tag 10 and two VLANs with the
  IDs 20 and 10 on \<open>eth0\<close>. The bridge-facing files have three \<open>[BridgeVLAN]\<close> blocks: the
  PVID block of 10, then 10 and 20.
\<close>

theorem vlan_aggregation_law_witness:
  "hd (c_Interfaces scenarioB) \<in> set (c_Interfaces scenarioB)
   \<and> bridgeVLANTags ''eth0'' 10 [] (c_VLANs scenarioB) = [10, 20]
   \<and> (\<exists>f \<in> set (generateNetworkFileContents scenarioB). \<exists>g \<in> set (generateNetworkFileContents scenarioB).
         Name f = ''20-vteth0.network''
         \<and> Contents f = ''[Match]\<newline>Name=vteth0\<newline>\<newline>[Network]\<newline>Bridge=breth0\<newline>\<newline>[BridgeVLAN]\<newline>PVID=10\<newline>EgressUntagged=10\<newline>\<newline>[BridgeVLAN]\<newline>VLAN=10\<newline>\<newline>[BridgeVLAN]\<newline>VLAN=20\<newline>''
         \<and> Name g = ''20-enaabbccddeeff.network''
         \<and> Contents g = ''[Match]\<newline>Name=enaabbccddeeff\<newline>\<newline>[Network]\<newline>LLDP=false\<newline>EmitLLDP=false\<newline>Bridge=breth0\<newline>\<newline>[BridgeVLAN]\<newline>PVID=10\<newline>EgressUntagged=10\<newline>\<newline>[BridgeVLAN]\<newline>VLAN=10\<newline>\<newline>[BridgeVLAN]\<newline>VLAN=20\<newline>'')"
proof -
  have m: "hd (c_Interfaces scenarioB) \<in> set (c_Interfaces scenarioB)"
    by (simp add: scenarioB_def)
  have low: "ToLower (stripColons ''AA:BB:CC:DD:EE:FF'') = ''aabbccddeeff''"
    by (simp add: ToLower_def stripColons_def lowerChar_def)
  have ten: "fmtInt 10 = ''10''" "fmtInt 20 = ''20''"
    by (simp_all add: fmtInt_def fmtNat.simps digit_def)
  have law: "bridgeVLANTags ''eth0'' 10 [] (c_VLANs scenarioB)
               = sorted_list_of_set (tagSources ''eth0'' 10 [] (c_VLANs scenarioB))"
    using vlan_aggregation_law[of "''eth0''" 10 "[]" "c_VLANs scenarioB" scenarioB] by blast
  have run: "bridgeVLANTags ''eth0'' 10 [] (c_VLANs scenarioB) = [10, 20]"
    by (simp add: bridgeVLANTags_def scenarioB_def slices_Sort_def slices_Compact_def)
  have src: "sorted_list_of_set (tagSources ''eth0'' 10 [] (c_VLANs scenarioB)) = [10, 20]"
    using law run by simp
  have files: "\<forall>i \<in> set (c_Interfaces scenarioB).
         \<exists>f \<in> set (generateNetworkFileContents scenarioB). \<exists>g \<in> set (generateNetworkFileContents scenarioB).
           Name f = ''20-vt'' @ i_Name i @ ''.network''
           \<and> Contents f = ''[Match]\<newline>Name=vt'' @ i_Name i @ ''\<newline>\<newline>[Network]\<newline>Bridge=br'' @ i_Name i @ ''\<newline>''
                @ bridgeVLANText (i_VLAN i)
                    (sorted_list_of_set (tagSources (i_Name i) (i_VLAN i) (i_VLANTags i) (c_VLANs scenarioB)))
           \<and> Name g = ''20-en'' @ ToLower (stripColons (i_Hwaddr i)) @ ''.network''
           \<and> Contents g = ''[Match]\<newline>Name=en'' @ ToLower (stripColons (i_Hwaddr i))
                @ ''\<newline>\<newline>[Network]\<newline>LLDP='' @ FormatBool (i_LLDP i) @ ''\<newline>EmitLLDP='' @ FormatBool (i_LLDP i)
                @ ''\<newline>Bridge=br'' @ i_Name i @ ''\<newline>''
                @ bridgeVLANText (i_VLAN i)
                    (sorted_list_of_set (tagSources (i_Name i) (i_VLAN i) (i_VLANTags i) (c_VLANs scenarioB)))"
    using vlan_aggregation_law[of "''eth0''" 10 "[]" "c_VLANs scenarioB" scenarioB] by blast
  have eth: "hd (c_Interfaces scenarioB) = \<lparr>i_Name = ''eth0'', i_Hwaddr = ''AA:BB:CC:DD:EE:FF'', i_MTU = 0,
                        i_Addresses = [''dhcp4''], i_Routes = [], i_VLAN = 10, i_VLANTags = [],
                        i_LLDP = False, i_RequiredForOnline = []\<rparr>"
    by (simp add: scenarioB_def)
  from files m have one: "\<exists>f \<in> set (generateNetworkFileContents scenarioB). \<exists>g \<in> set (generateNetworkFileContents scenarioB).
           Name f = ''20-vteth0.network''
           \<and> Contents f = ''[Match]\<newline>Name=vteth0\<newline>\<newline>[Network]\<newline>Bridge=breth0\<newline>''
                @ bridgeVLANText 10 (sorted_list_of_set (tagSources ''eth0'' 10 [] (c_VLANs scenarioB)))
           \<and> Name g = ''20-en'' @ ToLower (stripColons ''AA:BB:CC:DD:EE:FF'') @ ''.network''
           \<and> Contents g = ''[Match]\<newline>Name=en'' @ ToLower (stripColons ''AA:BB:CC:DD:EE:FF'')
                @ ''\<newline>\<newline>[Network]\<newline>LLDP=false\<newline>EmitLLDP=false\<newline>Bridge=breth0\<newline>''
                @ bridgeVLANText 10 (sorted_list_of_set (tagSources ''eth0'' 10 [] (c_VLANs scenarioB)))"
    by (drule_tac x = "hd (c_Interfaces scenarioB)" in bspec) (simp_all add: eth FormatBool_def)
  show ?thesis
    using m run one unfolding src low by (simp add: bridgeVLANText_def ten)
qed

lemma bondNetdevs_veth:
  assumes "b_Hwaddr b = [] \<longrightarrow> b_Members b \<noteq> []"
  shows "\<exists>fs. bondNetdevs b = Inr fs
           \<and> vethNetdev ''11'' (b_Name b) (bondMacAddr b) (mtuString (b_MTU b)) \<in> set fs"
  using assms unfolding bondNetdevs_def Let_def bondMacAddr_def
  by (auto split: list.splits)

lemma bondsNetdevs_veth:
  assumes "\<forall>b' \<in> set bs. b_Hwaddr b' = [] \<longrightarrow> b_Members b' \<noteq> []" and "b \<in> set bs"
  shows "\<exists>fs. bondsNetdevs bs = Inr fs
           \<and> vethNetdev ''11'' (b_Name b) (bondMacAddr b) (mtuString (b_MTU b)) \<in> set fs"
  using assms
proof (induction bs)
  case Nil
  then show ?case by simp
next
  case (Cons c bs)
  from Cons.prems(1) have okc: "b_Hwaddr c = [] \<longrightarrow> b_Members c \<noteq> []" by simp
  from Cons.prems(1) have okbs: "\<forall>b' \<in> set bs. b_Hwaddr b' = [] \<longrightarrow> b_Members b' \<noteq> []" by simp
  obtain fs where fs: "bondNetdevs c = Inr fs"
    and cin: "vethNetdev ''11'' (b_Name c) (bondMacAddr c) (mtuString (b_MTU c)) \<in> set fs"
    using bondNetdevs_veth[OF okc] by blast
  have "\<exists>gs. bondsNetdevs bs = Inr gs
          \<and> (b \<in> set bs \<longrightarrow> vethNetdev ''11'' (b_Name b) (bondMacAddr b) (mtuString (b_MTU b)) \<in> set gs)"
  proof (cases "b \<in> set bs")
    case True
    then show ?thesis using Cons.IH[OF okbs] by blast
  next
    case False
    have "\<exists>gs. bondsNetdevs bs = Inr gs"
      using okbs
    proof (induction bs)
      case Nil
      then show ?case by simp
    next
      case (Cons d ds)
      then obtain hs where "bondNetdevs d = Inr hs" using bondNetdevs_veth[of d] by auto
      moreover obtain ks where "bondsNetdevs ds = Inr ks" using Cons by auto
      ultimately show ?case by simp
    qed
    then show ?thesis using False by blast
  qed
  then obtain gs where gs: "bondsNetdevs bs = Inr gs"
    and bin: "b \<in> set bs \<longrightarrow> vethNetdev ''11'' (b_Name b) (bondMacAddr b) (mtuString (b_MTU b)) \<in> set gs"
    by blast
  show ?case
    using fs gs cin bin Cons.prems(2) by auto
qed

text \<open>
  Claim C8. When every bond without a hardware address of its own has a member (the
  invariant of the data model), \<open>generateNetdevFileContents\<close> returns, and for every bond
  the veth file \<open>11-<name>.netdev\<close> among the files has as its \<open>MACAddress\<close> the hardware
  address of the first member when the bond's own address is unset, and the bond's own
  address when it is set.
\<close>

theorem bond_veth_mac_law:
  assumes "b \<in> set (c_Bonds cfg)"
    and "\<forall>b' \<in> set (c_Bonds cfg). b_Hwaddr b' = [] \<longrightarrow> b_Members b' \<noteq> []"
  shows "\<exists>files. generateNetdevFileContents cfg = Inr files
           \<and> (\<exists>f \<in> set files.
                 Name f = ''11-'' @ b_Name b @ ''.netdev''
                 \<and> Contents f = ''[NetDev]\<newline>Name='' @ b_Name b @ ''\<newline>Kind=veth\<newline>MACAddress=''
                      @ (if b_Hwaddr b = [] then hd (b_Members b) else b_Hwaddr b)
                      @ ''\<newline>'' @ mtuString (b_MTU b) @ ''\<newline>\<newline>[Peer]\<newline>Name=vt'' @ b_Name b @ ''\<newline>'')"
proof -
  obtain fs where fs: "bondsNetdevs (c_Bonds cfg) = Inr fs"
    and mem: "vethNetdev ''11'' (b_Name b) (bondMacAddr b) (mtuString (b_MTU b)) \<in> set fs"
    using bondsNetdevs_veth[OF assms(2) assms(1)] by blast
  let ?files = "concat (map interfaceNetdevs (c_Interfaces cfg)) @ fs @ map vlanNetdev (c_VLANs cfg)"
  have "generateNetdevFileContents cfg = Inr ?files"
    by (simp add: generateNetdevFileContents_def fs)
  moreover have "vethNetdev ''11'' (b_Name b) (bondMacAddr b) (mtuString (b_MTU b)) \<in> set ?files"
    using mem by simp
  ultimately show ?thesis
    by (intro exI[of _ ?files] conjI bexI[of _ "vethNetdev ''11'' (b_Name b) (bondMacAddr b) (mtuString (b_MTU b))"])
       (simp_all add: vethNetdev_def bondMacAddr_def)
qed

text \<open>
  Scenario C of the specification: a bond with two members and no hardware address.
\<close>

theorem bond_veth_mac_law_witness:
  "hd (c_Bonds scenarioC) \<in> set (c_Bonds scenarioC)
   \<and> list_all (\<lambda>b'. b_Hwaddr b' \<noteq> [] \<or> b_Members b' \<noteq> []) (c_Bonds scenarioC)
   \<and> (\<exists>files. generateNetdevFileContents scenarioC = Inr files
         \<and> (\<exists>f \<in> set files.
               Name f = ''11-bond0.netdev''
               \<and> Contents f = ''[NetDev]\<newline>Name=bond0\<newline>Kind=veth\<newline>MACAddress=aa:bb:cc:dd:ee:01\<newline>\<newline>\<newline>[Peer]\<newline>Name=vtbond0\<newline>''))"
proof -
  have m: "hd (c_Bonds scenarioC) \<in> set (c_Bonds scenarioC)"
    by (simp add: scenarioC_def)
  have ok: "\<forall>b' \<in> set (c_Bonds scenarioC). b_Hwaddr b' = [] \<longrightarrow> b_Members b' \<noteq> []"
    by (simp add: scenarioC_def)
  have ok': "list_all (\<lambda>b'. b_Hwaddr b' \<noteq> [] \<or> b_Members b' \<noteq> []) (c_Bonds scenarioC)"
    by (simp add: scenarioC_def)
  show ?thesis
    using m ok' bond_veth_mac_law[OF m ok] by (simp add: scenarioC_def mtuString_def)
qed


section \<open>The online wait\<close>

lemma onlineLoop_timeout:
  "timeNow env w = (t, w0) \<Longrightarrow> endTime < t \<Longrightarrow>
   onlineLoop env names endTime w
     = (Inl (ErrorString ''timed out waiting for network to come online''), w0)"
  by (subst onlineLoop.simps) simp

lemma onlineLoop_done:
  "timeNow env w = (t, w0) \<Longrightarrow> \<not> endTime < t \<Longrightarrow> checkDevices env names w0 = (True, w1) \<Longrightarrow>
   onlineLoop env names endTime w = (Inr (), w1)"
  by (subst onlineLoop.simps) simp

lemma onlineLoop_retry:
  "timeNow env w = (t, w0) \<Longrightarrow> \<not> endTime < t \<Longrightarrow> checkDevices env names w0 = (False, w1) \<Longrightarrow>
   onlineLoop env names endTime w = onlineLoop env names endTime (timeSleep env (500 * Millisecond) w1)"
  by (subst onlineLoop.simps) simp

text \<open>
  Induction over the rounds of the online loop: the deadline has passed, the pass finds
  every device converged, or the pass fails and the loop goes on after the sleep.
\<close>

lemma onlineLoop_cases [case_names expired converged retry]:
  assumes "\<And>env names endTime w t w0. timeNow env w = (t, w0) \<Longrightarrow> endTime < t \<Longrightarrow> P env names endTime w"
    and "\<And>env names endTime w t w0 w1. timeNow env w = (t, w0) \<Longrightarrow> \<not> endTime < t \<Longrightarrow>
           checkDevices env names w0 = (True, w1) \<Longrightarrow> P env names endTime w"
    and "\<And>env names endTime w t w0 w1. timeNow env w = (t, w0) \<Longrightarrow> \<not> endTime < t \<Longrightarrow>
           checkDevices env names w0 = (False, w1) \<Longrightarrow>
           P env names endTime (timeSleep env (500 * Millisecond) w1) \<Longrightarrow> P env names endTime w"
  shows "P env names endTime w"
proof (induction env names endTime w rule: onlineLoop.induct)
  case (1 env names endTime w)
  obtain t w0 where now: "timeNow env w = (t, w0)" by (cases "timeNow env w")
  obtain ok w1 where pass: "checkDevices env names w0 = (ok, w1)" by (cases "checkDevices env names w0")
  show ?case
  proof (cases "endTime < t")
    case True
    then show ?thesis using assms(1)[OF now] by simp
  next
    case False
    show ?thesis
    proof (cases ok)
      case True
      then show ?thesis using assms(2)[OF now False] pass by simp
    next
      case notok: False
      have "P env names endTime (timeSleep env (500 * Millisecond) w1)"
        using "1.IH"[OF now[symmetric] _ pass[symmetric]] False notok by simp
      then show ?thesis using assms(3)[OF now False] pass notok by simp
    qed
  qed
qed

lemma onlineLoop_result:
  "fst (onlineLoop env names endTime w) = Inr ()
   \<or> fst (onlineLoop env names endTime w) = Inl (ErrorString ''timed out waiting for network to come online'')"
  by (induction env names endTime w rule: onlineLoop_cases)
     (simp_all add: onlineLoop_timeout onlineLoop_done onlineLoop_retry)

lemma onlineLoop_deadline:
  "onlineLoop env names endTime w = (Inl e, w') \<Longrightarrow> endTime < clock w'"
proof (induction env names endTime w rule: onlineLoop_cases)
  case (expired env names endTime w t w0)
  then show ?case using timeNow_clock[of env w t w0] by (simp add: onlineLoop_timeout)
next
  case (converged env names endTime w t w0 w1)
  then show ?case by (simp add: onlineLoop_done)
next
  case (retry env names endTime w t w0 w1)
  then show ?case by (simp add: onlineLoop_retry)
qed

lemma onlineLoop_never:
  "\<forall>w. \<not> fst (checkDevices env names w) \<Longrightarrow>
   fst (onlineLoop env names endTime w) = Inl (ErrorString ''timed out waiting for network to come online'')"
proof (induction env names endTime w rule: onlineLoop_cases)
  case (expired env names endTime w t w0)
  then show ?case by (simp add: onlineLoop_timeout)
next
  case (converged env names endTime w t w0 w1)
  then have "fst (checkDevices env names w0)" by simp
  then show ?case using converged.prems by blast
next
  case (retry env names endTime w t w0 w1)
  then show ?case by (simp add: onlineLoop_retry)
qed

lemma checkDevices_never:
  "d \<in> set names \<Longrightarrow> \<forall>w. \<not> fst (checkDevice env d w) \<Longrightarrow> \<not> fst (checkDevices env names w)"
proof (induction names arbitrary: w)
  case Nil
  then show ?case by simp
next
  case (Cons n names)
  obtain ok w1 where c: "checkDevice env n w = (ok, w1)" by (cases "checkDevice env n w")
  show ?case
  proof (cases "d = n")
    case True
    then have "\<not> ok" using Cons.prems(2) c by (metis fst_conv)
    then show ?thesis using c by simp
  next
    case False
    then have "d \<in> set names" using Cons.prems(1) by simp
    then have "\<not> fst (checkDevices env names w1)" using Cons.IH Cons.prems(2) by blast
    then show ?thesis using c by simp
  qed
qed

text \<open>
  Claim C7. When the online wait returns an error, the error is the timeout error and the
  clock is then strictly later than the deadline (the time the wait started plus the
  timeout): the timeout is never reported before the deadline has passed. When some device
  of the checked set never satisfies the online condition, the wait returns the timeout
  error. No failed command, file system call or helper function has the timeout error as
  its error value.
\<close>

theorem online_wait_timeout_law:
  "(waitForNetworkOnline env (Some cfg) timeout w = (Inl e, w')
      \<longrightarrow> e = ErrorString ''timed out waiting for network to come online''
          \<and> fst (timeNow env w) + timeout < clock w')
   \<and> (d \<in> set (devicesToCheck cfg) \<and> (\<forall>w. \<not> fst (checkDevice env d w))
      \<longrightarrow> fst (waitForNetworkOnline env (Some cfg) timeout w)
            = Inl (ErrorString ''timed out waiting for network to come online''))
   \<and> (\<forall>ev msg. errorOf ev msg \<noteq> ErrorString ''timed out waiting for network to come online'')"
proof (intro conjI impI allI)
  obtain t w0 where now: "timeNow env w = (t, w0)" by (cases "timeNow env w")
  have run: "waitForNetworkOnline env (Some cfg) timeout w = onlineLoop env (devicesToCheck cfg) (t + timeout) w0"
    by (simp add: waitForNetworkOnline_def now)
  {
    assume r: "waitForNetworkOnline env (Some cfg) timeout w = (Inl e, w')"
    then have l: "onlineLoop env (devicesToCheck cfg) (t + timeout) w0 = (Inl e, w')" using run by simp
    show "e = ErrorString ''timed out waiting for network to come online''"
      using onlineLoop_result[of env "devicesToCheck cfg" "t + timeout" w0] l by simp
    show "fst (timeNow env w) + timeout < clock w'"
      using onlineLoop_deadline[OF l] now by simp
  }
  {
    assume "d \<in> set (devicesToCheck cfg) \<and> (\<forall>w. \<not> fst (checkDevice env d w))"
    then have "\<forall>w. \<not> fst (checkDevices env (devicesToCheck cfg) w)"
      using checkDevices_never by blast
    then show "fst (waitForNetworkOnline env (Some cfg) timeout w)
            = Inl (ErrorString ''timed out waiting for network to come online'')"
      unfolding run by (rule onlineLoop_never)
  }
  fix ev :: "'b event" and msg
  show "errorOf ev msg \<noteq> ErrorString ''timed out waiting for network to come online''"
    by (cases ev) (simp_all add: errorOf_def)
qed

text \<open>
  A one-second wait for \<open>eth0\<close> in an environment where \<open>networkctl\<close> never answers.
\<close>

theorem online_wait_timeout_law_witness:
  "''eth0'' \<in> set (devicesToCheck scenarioA) \<and> (\<forall>w. \<not> fst (checkDevice envDown ''eth0'' w))
   \<and> fst (waitForNetworkOnline envDown (Some scenarioA) Second world0)
       = Inl (ErrorString ''timed out waiting for network to come online'')
   \<and> fst (timeNow envDown world0) + Second < clock (snd (waitForNetworkOnline envDown (Some scenarioA) Second world0))"
proof -
  have d: "''eth0'' \<in> set (devicesToCheck scenarioA)"
    by (simp add: devicesToCheck_def scenarioA_def)
  have never: "\<forall>w. \<not> fst (checkDevice envDown ''eth0'' w)"
    by (simp add: checkDevice_def isOnline_def perform_def envDown_def)
  note law = online_wait_timeout_law[of envDown scenarioA Second world0
      "ErrorString ''timed out waiting for network to come online''"
      "snd (waitForNetworkOnline envDown (Some scenarioA) Second world0)" "''eth0''"]
  have r: "fst (waitForNetworkOnline envDown (Some scenarioA) Second world0)
       = Inl (ErrorString ''timed out waiting for network to come online'')"
    using law d never by blast
  then have "waitForNetworkOnline envDown (Some scenarioA) Second world0
      = (Inl (ErrorString ''timed out waiting for network to come online''),
         snd (waitForNetworkOnline envDown (Some scenarioA) Second world0))"
    by (metis prod.collapse)
  then have "fst (timeNow envDown world0) + Second
      < clock (snd (waitForNetworkOnline envDown (Some scenarioA) Second world0))"
    using law by blast
  then show ?thesis using d never r by blast
qed

text \<open>
  Claim C5, as the code has it. When \<open>networkctl status\<close> fails for a device, or the device
  is reported online and required and \<open>ip address show\<close> fails for it, the device counts as
  not converged and the polling pass does not succeed. The failure itself is never returned:
  the online wait returns success or the timeout error, nothing else.
\<close>

theorem status_query_failure_law:
  "(fst (respond env w (EvRunCommand [''networkctl'', ''status'', name])) = Inl msg
      \<longrightarrow> \<not> fst (checkDevice env name w) \<and> \<not> fst (checkDevices env (name # names) w))
   \<and> (isOnline env name w = ((True, True), w1)
        \<and> fst (respond env w1 (EvRunCommand [''ip'', ''address'', ''show'', name])) = Inl msg
      \<longrightarrow> \<not> fst (checkDevice env name w) \<and> \<not> fst (checkDevices env (name # names) w))
   \<and> (fst (waitForNetworkOnline env (Some cfg) timeout w) = Inr ()
        \<or> fst (waitForNetworkOnline env (Some cfg) timeout w)
            = Inl (ErrorString ''timed out waiting for network to come online''))"
proof (intro conjI impI)
  assume f: "fst (respond env w (EvRunCommand [''networkctl'', ''status'', name])) = Inl msg"
  then show a: "\<not> fst (checkDevice env name w)"
    by (auto simp: checkDevice_def isOnline_def perform_def split: prod.splits)
  then show "\<not> fst (checkDevices env (name # names) w)"
    by (cases "checkDevice env name w") auto
next
  assume f: "isOnline env name w = ((True, True), w1)
        \<and> fst (respond env w1 (EvRunCommand [''ip'', ''address'', ''show'', name])) = Inl msg"
  then show a: "\<not> fst (checkDevice env name w)"
    by (auto simp: checkDevice_def hasAtLeastOneConfiguredIP_def perform_def split: prod.splits)
  then show "\<not> fst (checkDevices env (name # names) w)"
    by (cases "checkDevice env name w") auto
next
  obtain t w0 where now: "timeNow env w = (t, w0)" by (cases "timeNow env w")
  show "fst (waitForNetworkOnline env (Some cfg) timeout w) = Inr ()
        \<or> fst (waitForNetworkOnline env (Some cfg) timeout w)
            = Inl (ErrorString ''timed out waiting for network to come online'')"
    using onlineLoop_result[of env "devicesToCheck cfg" "t + timeout" w0]
    by (simp add: waitForNetworkOnline_def now)
qed

text \<open>
  Claim C5 as stated says that the failure of a status query is propagated and ends the
  wait. Here \<open>networkctl status eth0\<close> fails every time; the wait queries three times,
  sleeping in between, and returns the timeout error.
\<close>

theorem status_query_failure_counterexample:
  "fst (respond envDown world0 (EvRunCommand [''networkctl'', ''status'', ''eth0''])) = Inl ''exit status 1''
   \<and> waitForNetworkOnline envDown (Some scenarioA) Second world0
     = (Inl (ErrorString ''timed out waiting for network to come online''),
        \<lparr>clock = 1500000000,
         trace = [EvRunCommand [''networkctl'', ''status'', ''eth0''], EvSleep 500000000,
                  EvRunCommand [''networkctl'', ''status'', ''eth0''], EvSleep 500000000,
                  EvRunCommand [''networkctl'', ''status'', ''eth0''], EvSleep 500000000]\<rparr>)"
  by (simp add: waitForNetworkOnline_def timeNow_def envDown_def world0_def scenarioA_def devicesToCheck_def
      Second_def Millisecond_def onlineLoop.simps checkDevice_def isOnline_def perform_def timeSleep_def
      errorOf_def)

theorem status_query_failure_law_witness:
  "fst (respond envDown world0 (EvRunCommand [''networkctl'', ''status'', ''eth0''])) = Inl ''exit status 1''
   \<and> \<not> fst (checkDevices envDown [''eth0''] world0)
   \<and> isOnline envNoAddress ''eth0'' world0
       = ((True, True), \<lparr>clock = 0, trace = [EvRunCommand [''networkctl'', ''status'', ''eth0'']]\<rparr>)
   \<and> fst (respond envNoAddress \<lparr>clock = 0, trace = [EvRunCommand [''networkctl'', ''status'', ''eth0'']]\<rparr>
            (EvRunCommand [''ip'', ''address'', ''show'', ''eth0''])) = Inl ''exit status 1''
   \<and> \<not> fst (checkDevices envNoAddress [''eth0''] world0)
   \<and> (fst (waitForNetworkOnline envNoAddress (Some scenarioA) Second world0) = Inr ()
        \<or> fst (waitForNetworkOnline envNoAddress (Some scenarioA) Second world0)
            = Inl (ErrorString ''timed out waiting for network to come online''))"
proof -
  let ?w1 = "\<lparr>clock = 0, trace = [EvRunCommand [''networkctl'', ''status'', ''eth0'']]\<rparr> :: unit world"
  have f1: "fst (respond envDown world0 (EvRunCommand [''networkctl'', ''status'', ''eth0''])) = Inl ''exit status 1''"
    by (simp add: envDown_def)
  have on: "isOnline envNoAddress ''eth0'' world0 = ((True, True), ?w1)"
    by (simp add: isOnline_def perform_def envNoAddress_def world0_def HasPrefix_def)
  have f2: "fst (respond envNoAddress ?w1 (EvRunCommand [''ip'', ''address'', ''show'', ''eth0''])) = Inl ''exit status 1''"
    by (simp add: envNoAddress_def)
  have a: "\<not> fst (checkDevices envDown [''eth0''] world0)"
    using status_query_failure_law[of envDown world0 "''eth0''" "''exit status 1''" "[]" ?w1 scenarioA Second] f1
    by blast
  have b: "\<not> fst (checkDevices envNoAddress [''eth0''] world0)"
    using status_query_failure_law[of envNoAddress world0 "''eth0''" "''exit status 1''" "[]" ?w1 scenarioA Second] on f2
    by blast
  have c: "fst (waitForNetworkOnline envNoAddress (Some scenarioA) Second world0) = Inr ()
        \<or> fst (waitForNetworkOnline envNoAddress (Some scenarioA) Second world0)
            = Inl (ErrorString ''timed out waiting for network to come online'')"
    using status_query_failure_law[of envNoAddress world0 "''eth0''" "''exit status 1''" "[]" ?w1 scenarioA Second]
    by blast
  show ?thesis using f1 a on f2 b c by blast
qed


section \<open>The polling bounds, validation and the action endpoint\<close>

text \<open>
  A round that ends with the sleep uses up one period of the time that is left.
\<close>

lemma poll_bound_step:
  fixes P c c2 e :: int
  assumes "0 < P" and "c + P \<le> c2" and "c2 \<le> e"
  shows "nat ((e - c2) div P) + 1 \<le> nat ((e - c) div P)"
proof -
  have "(e - c2) div P \<le> (e - c - P) div P"
    using assms by (intro zdiv_mono1) auto
  also have "(e - c - P) div P = (e - c) div P - 1"
    using assms(1) by (metis add.commute diff_add_cancel div_add_self1 add_diff_cancel_left' less_irrefl)
  finally have a: "(e - c2) div P + 1 \<le> (e - c) div P" by simp
  have "0 \<le> (e - c2) div P"
    using assms by (simp add: pos_imp_zdiv_nonneg_iff)
  then show ?thesis using a by linarith
qed

lemma sleepCount_perform:
  "perform env (EvRunCommand args) w = (res, w') \<Longrightarrow> sleepCount w' = sleepCount w"
  by (auto simp: perform_def sleepCount_def split: prod.splits)

lemma sleepCount_timeNow: "timeNow env w = (t, w0) \<Longrightarrow> sleepCount w0 = sleepCount w"
  by (auto simp: timeNow_def Let_def sleepCount_def)

lemma trace_timeNow: "timeNow env w = (t, w0) \<Longrightarrow> trace w0 = trace w"
  by (auto simp: timeNow_def Let_def)

lemma sleepCount_timeSleep: "sleepCount (timeSleep env d w) = Suc (sleepCount w)"
  by (auto simp: timeSleep_def sleepCount_def split: prod.splits)

lemma sleepCount_checkDevice: "checkDevice env name w = (ok, w') \<Longrightarrow> sleepCount w' = sleepCount w"
  unfolding checkDevice_def isOnline_def hasAtLeastOneConfiguredIP_def Let_def
  by (auto split: prod.splits sum.splits if_splits dest!: sleepCount_perform)

lemma sleepCount_checkDevices: "checkDevices env names w = (ok, w') \<Longrightarrow> sleepCount w' = sleepCount w"
proof (induction names arbitrary: w)
  case Nil
  then show ?case by simp
next
  case (Cons name names)
  obtain ok1 w1 where c: "checkDevice env name w = (ok1, w1)" by (cases "checkDevice env name w")
  then have s: "sleepCount w1 = sleepCount w" by (rule sleepCount_checkDevice)
  show ?case
  proof (cases ok1)
    case True
    then have "checkDevices env names w1 = (ok, w')" using Cons.prems c by simp
    then show ?thesis using Cons.IH s by simp
  next
    case False
    then show ?thesis using Cons.prems c s by simp
  qed
qed

lemma onlineLoop_sleeps:
  "sleepCount (snd (onlineLoop env names endTime w))
     \<le> sleepCount w + (if endTime < clock w then 0 else nat ((endTime - clock w) div (500 * Millisecond)) + 1)"
proof (induction env names endTime w rule: onlineLoop_cases)
  case (expired env names endTime w t w0)
  then show ?case by (simp add: onlineLoop_timeout sleepCount_timeNow)
next
  case (converged env names endTime w t w0 w1)
  then show ?case
    using sleepCount_checkDevices[of env names w0 True w1] sleepCount_timeNow[of env w t w0]
    by (simp add: onlineLoop_done)
next
  case (retry env names endTime w t w0 w1)
  let ?w2 = "timeSleep env (500 * Millisecond) w1"
  have s: "sleepCount ?w2 = Suc (sleepCount w)"
    using sleepCount_checkDevices[OF retry(3)] sleepCount_timeNow[OF retry(1)]
    by (simp add: sleepCount_timeSleep)
  have c: "clock w + 500 * Millisecond \<le> clock ?w2"
    using timeNow_clock[OF retry(1)] checkDevices_clock[OF retry(3)] timeSleep_clock[of w1 "500 * Millisecond" env]
    by linarith
  have le: "clock w \<le> endTime"
    using timeNow_clock[OF retry(1)] retry(2) by linarith
  show ?case
  proof (cases "endTime < clock ?w2")
    case True
    then show ?thesis using retry(4) s le by (simp add: onlineLoop_retry[OF retry(1-3)])
  next
    case False
    then have "nat ((endTime - clock ?w2) div (500 * Millisecond)) + 1
        \<le> nat ((endTime - clock w) div (500 * Millisecond))"
      using c by (intro poll_bound_step) (simp_all add: Millisecond_def)
    then show ?thesis using retry(4) s le False by (simp add: onlineLoop_retry[OF retry(1-3)])
  qed
qed

text \<open>
  Induction over the rounds of the rename loop: the deadline has passed, one of the two
  \<open>udevadm\<close> commands fails, the kernel log shows a renamed interface, or it does not and
  the loop goes on after the sleep.
\<close>

lemma renameLoop_cases [case_names expired trigger_failed settle_failed renamed retry]:
  assumes "\<And>env endTime w t w0. timeNow env w = (t, w0) \<Longrightarrow> endTime < t \<Longrightarrow> P env endTime w"
    and "\<And>env endTime w t w0 e w1. timeNow env w = (t, w0) \<Longrightarrow> \<not> endTime < t \<Longrightarrow>
           perform env (EvRunCommand [''udevadm'', ''trigger'', ''--action=add'']) w0 = (Inl e, w1) \<Longrightarrow>
           P env endTime w"
    and "\<And>env endTime w t w0 o1 w1 e w2. timeNow env w = (t, w0) \<Longrightarrow> \<not> endTime < t \<Longrightarrow>
           perform env (EvRunCommand [''udevadm'', ''trigger'', ''--action=add'']) w0 = (Inr o1, w1) \<Longrightarrow>
           perform env (EvRunCommand [''udevadm'', ''settle'']) w1 = (Inl e, w2) \<Longrightarrow>
           P env endTime w"
    and "\<And>env endTime w t w0 o1 w1 o2 w2 o3 w3. timeNow env w = (t, w0) \<Longrightarrow> \<not> endTime < t \<Longrightarrow>
           perform env (EvRunCommand [''udevadm'', ''trigger'', ''--action=add'']) w0 = (Inr o1, w1) \<Longrightarrow>
           perform env (EvRunCommand [''udevadm'', ''settle'']) w1 = (Inr o2, w2) \<Longrightarrow>
           perform env (EvRunCommand [''journalctl'', ''-b'', ''-t'', ''kernel'', ''-g'',
                                       ''en[[:xdigit:]]{12}: renamed from '']) w2 = (Inr o3, w3) \<Longrightarrow>
           P env endTime w"
    and "\<And>env endTime w t w0 o1 w1 o2 w2 e w3. timeNow env w = (t, w0) \<Longrightarrow> \<not> endTime < t \<Longrightarrow>
           perform env (EvRunCommand [''udevadm'', ''trigger'', ''--action=add'']) w0 = (Inr o1, w1) \<Longrightarrow>
           perform env (EvRunCommand [''udevadm'', ''settle'']) w1 = (Inr o2, w2) \<Longrightarrow>
           perform env (EvRunCommand [''journalctl'', ''-b'', ''-t'', ''kernel'', ''-g'',
                                       ''en[[:xdigit:]]{12}: renamed from '']) w2 = (Inl e, w3) \<Longrightarrow>
           P env endTime (timeSleep env (500 * Millisecond) w3) \<Longrightarrow> P env endTime w"
  shows "P env endTime w"
proof (induction env endTime w rule: renameLoop.induct)
  case (1 env endTime w)
  obtain t w0 where now: "timeNow env w = (t, w0)" by (cases "timeNow env w")
  obtain r1 w1 where p1: "perform env (EvRunCommand [''udevadm'', ''trigger'', ''--action=add'']) w0 = (r1, w1)"
    by (cases "perform env (EvRunCommand [''udevadm'', ''trigger'', ''--action=add'']) w0")
  obtain r2 w2 where p2: "perform env (EvRunCommand [''udevadm'', ''settle'']) w1 = (r2, w2)"
    by (cases "perform env (EvRunCommand [''udevadm'', ''settle'']) w1")
  obtain r3 w3 where p3: "perform env (EvRunCommand [''journalctl'', ''-b'', ''-t'', ''kernel'', ''-g'',
                                       ''en[[:xdigit:]]{12}: renamed from '']) w2 = (r3, w3)"
    by (cases "perform env (EvRunCommand [''journalctl'', ''-b'', ''-t'', ''kernel'', ''-g'',
                                       ''en[[:xdigit:]]{12}: renamed from '']) w2")
  show ?case
  proof (cases "endTime < t")
    case True
    then show ?thesis using assms(1)[OF now] by simp
  next
    case False
    show ?thesis
    proof (cases r1)
      case (Inl e)
      then show ?thesis using assms(2)[OF now False] p1 by simp
    next
      case i1: (Inr o1)
      show ?thesis
      proof (cases r2)
        case (Inl e)
        then show ?thesis using assms(3)[OF now False] p1 p2 i1 by simp
      next
        case i2: (Inr o2)
        show ?thesis
        proof (cases r3)
          case (Inr o3)
          then show ?thesis using assms(4)[OF now False] p1 p2 p3 i1 i2 by simp
        next
          case (Inl e)
          have "P env endTime (timeSleep env (500 * Millisecond) w3)"
            using "1.IH"[OF now[symmetric] _ p1[symmetric] _ p2[symmetric] _ p3[symmetric]] False i1 i2 Inl
            by simp
          then show ?thesis using assms(5)[OF now False] p1 p2 p3 i1 i2 Inl by simp
        qed
      qed
    qed
  qed
qed

lemma renameLoop_expired:
  "timeNow env w = (t, w0) \<Longrightarrow> endTime < t \<Longrightarrow>
   renameLoop env endTime w = (Inl (ErrorString ''timed out waiting for udev to rename interface(s)''), w0)"
  by (subst renameLoop.simps) simp

lemma renameLoop_trigger_failed:
  "timeNow env w = (t, w0) \<Longrightarrow> \<not> endTime < t \<Longrightarrow>
   perform env (EvRunCommand [''udevadm'', ''trigger'', ''--action=add'']) w0 = (Inl e, w1) \<Longrightarrow>
   renameLoop env endTime w = (Inl e, w1)"
  by (subst renameLoop.simps) simp

lemma renameLoop_settle_failed:
  "timeNow env w = (t, w0) \<Longrightarrow> \<not> endTime < t \<Longrightarrow>
   perform env (EvRunCommand [''udevadm'', ''trigger'', ''--action=add'']) w0 = (Inr o1, w1) \<Longrightarrow>
   perform env (EvRunCommand [''udevadm'', ''settle'']) w1 = (Inl e, w2) \<Longrightarrow>
   renameLoop env endTime w = (Inl e, w2)"
  by (subst renameLoop.simps) simp

lemma renameLoop_renamed:
  "timeNow env w = (t, w0) \<Longrightarrow> \<not> endTime < t \<Longrightarrow>
   perform env (EvRunCommand [''udevadm'', ''trigger'', ''--action=add'']) w0 = (Inr o1, w1) \<Longrightarrow>
   perform env (EvRunCommand [''udevadm'', ''settle'']) w1 = (Inr o2, w2) \<Longrightarrow>
   perform env (EvRunCommand [''journalctl'', ''-b'', ''-t'', ''kernel'', ''-g'',
                               ''en[[:xdigit:]]{12}: renamed from '']) w2 = (Inr o3, w3) \<Longrightarrow>
   renameLoop env endTime w = (Inr (), w3)"
  by (subst renameLoop.simps) simp

lemma renameLoop_retry:
  "timeNow env w = (t, w0) \<Longrightarrow> \<not> endTime < t \<Longrightarrow>
   perform env (EvRunCommand [''udevadm'', ''trigger'', ''--action=add'']) w0 = (Inr o1, w1) \<Longrightarrow>
   perform env (EvRunCommand [''udevadm'', ''settle'']) w1 = (Inr o2, w2) \<Longrightarrow>
   perform env (EvRunCommand [''journalctl'', ''-b'', ''-t'', ''kernel'', ''-g'',
                               ''en[[:xdigit:]]{12}: renamed from '']) w2 = (Inl e, w3) \<Longrightarrow>
   renameLoop env endTime w = renameLoop env endTime (timeSleep env (500 * Millisecond) w3)"
  by (subst renameLoop.simps) simp

lemma renameLoop_sleeps:
  "sleepCount (snd (renameLoop env endTime w))
     \<le> sleepCount w + (if endTime < clock w then 0 else nat ((endTime - clock w) div (500 * Millisecond)) + 1)"
proof (induction env endTime w rule: renameLoop_cases)
  case (expired env endTime w t w0)
  then show ?case by (simp add: renameLoop_expired sleepCount_timeNow)
next
  case (trigger_failed env endTime w t w0 e w1)
  then show ?case
    using sleepCount_perform[OF trigger_failed(3)] sleepCount_timeNow[OF trigger_failed(1)]
    by (simp add: renameLoop_trigger_failed)
next
  case (settle_failed env endTime w t w0 o1 w1 e w2)
  then show ?case
    using sleepCount_perform[OF settle_failed(3)] sleepCount_perform[OF settle_failed(4)]
      sleepCount_timeNow[OF settle_failed(1)]
    by (simp add: renameLoop_settle_failed)
next
  case (renamed env endTime w t w0 o1 w1 o2 w2 o3 w3)
  then show ?case
    using sleepCount_perform[OF renamed(3)] sleepCount_perform[OF renamed(4)] sleepCount_perform[OF renamed(5)]
      sleepCount_timeNow[OF renamed(1)]
    by (simp add: renameLoop_renamed)
next
  case (retry env endTime w t w0 o1 w1 o2 w2 e w3)
  let ?w4 = "timeSleep env (500 * Millisecond) w3"
  have s: "sleepCount ?w4 = Suc (sleepCount w)"
    using sleepCount_perform[OF retry(3)] sleepCount_perform[OF retry(4)] sleepCount_perform[OF retry(5)]
      sleepCount_timeNow[OF retry(1)]
    by (simp add: sleepCount_timeSleep)
  have c: "clock w + 500 * Millisecond \<le> clock ?w4"
    using timeNow_clock[OF retry(1)] perform_clock[OF retry(3)] perform_clock[OF retry(4)]
      perform_clock[OF retry(5)] timeSleep_clock[of w3 "500 * Millisecond" env]
    by linarith
  have le: "clock w \<le> endTime"
    using timeNow_clock[OF retry(1)] retry(2) by linarith
  show ?case
  proof (cases "endTime < clock ?w4")
    case True
    then show ?thesis using retry(6) s le by (simp add: renameLoop_retry[OF retry(1-5)])
  next
    case False
    then have "nat ((endTime - clock ?w4) div (500 * Millisecond)) + 1
        \<le> nat ((endTime - clock w) div (500 * Millisecond))"
      using c by (intro poll_bound_step) (simp_all add: Millisecond_def)
    then show ?thesis using retry(6) s le False by (simp add: renameLoop_retry[OF retry(1-5)])
  qed
qed

lemma waitForUdevInterfaceRename_sleeps:
  "sleepCount (snd (waitForUdevInterfaceRename env timeout w))
     \<le> sleepCount w + (if timeout < 0 then 0 else nat (timeout div (500 * Millisecond)) + 1)"
proof -
  obtain t w0 where now: "timeNow env w = (t, w0)" by (cases "timeNow env w")
  have c: "t = clock w0" using timeNow_clock[OF now] by simp
  have "sleepCount (snd (renameLoop env (clock w0 + timeout) w0))
      \<le> sleepCount w0 + (if clock w0 + timeout < clock w0 then 0
                          else nat ((clock w0 + timeout - clock w0) div (500 * Millisecond)) + 1)"
    by (rule renameLoop_sleeps)
  then have "sleepCount (snd (renameLoop env (clock w0 + timeout) w0))
      \<le> sleepCount w0 + (if timeout < 0 then 0 else nat (timeout div (500 * Millisecond)) + 1)"
    by (simp cong: if_cong)
  then show ?thesis
    unfolding waitForUdevInterfaceRename_def now c using sleepCount_timeNow[OF now] by simp
qed

lemma waitForNetworkOnline_sleeps:
  "sleepCount (snd (waitForNetworkOnline env (Some cfg) timeout w))
     \<le> sleepCount w + (if timeout < 0 then 0 else nat (timeout div (500 * Millisecond)) + 1)"
proof -
  obtain t w0 where now: "timeNow env w = (t, w0)" by (cases "timeNow env w")
  have c: "t = clock w0" using timeNow_clock[OF now] by simp
  have "sleepCount (snd (onlineLoop env (devicesToCheck cfg) (clock w0 + timeout) w0))
      \<le> sleepCount w0 + (if clock w0 + timeout < clock w0 then 0
                          else nat ((clock w0 + timeout - clock w0) div (500 * Millisecond)) + 1)"
    by (rule onlineLoop_sleeps)
  then have "sleepCount (snd (onlineLoop env (devicesToCheck cfg) (clock w0 + timeout) w0))
      \<le> sleepCount w0 + (if timeout < 0 then 0 else nat (timeout div (500 * Millisecond)) + 1)"
    by (simp cong: if_cong)
  then show ?thesis
    unfolding waitForNetworkOnline_def now c using sleepCount_timeNow[OF now] by simp
qed

lemma expired_at_once:
  assumes "timeout < 0 \<or> (timeout = 0 \<and> 0 < drift env (snd (timeNow env w)))"
    and "timeNow env w = (t, w0)" and "timeNow env w0 = (t', w0')"
  shows "t + timeout < t'" and "trace w0' = trace w"
proof -
  have "clock w0 = t" using timeNow_clock[OF assms(2)] by simp
  moreover have "t' = clock w0 + int (drift env w0)" using assms(3) by (auto simp: timeNow_def Let_def)
  ultimately show "t + timeout < t'" using assms(1,2) by auto
  show "trace w0' = trace w" using trace_timeNow[OF assms(2)] trace_timeNow[OF assms(3)] by simp
qed

lemma waitForUdevInterfaceRename_expired:
  assumes "timeout < 0 \<or> (timeout = 0 \<and> 0 < drift env (snd (timeNow env w)))"
  shows "fst (waitForUdevInterfaceRename env timeout w)
           = Inl (ErrorString ''timed out waiting for udev to rename interface(s)'')
         \<and> trace (snd (waitForUdevInterfaceRename env timeout w)) = trace w"
proof -
  obtain t w0 where now: "timeNow env w = (t, w0)" by (cases "timeNow env w")
  obtain t' w0' where now': "timeNow env w0 = (t', w0')" by (cases "timeNow env w0")
  show ?thesis
    using expired_at_once[OF assms now now'] renameLoop_expired[OF now', of "t + timeout"]
    by (simp add: waitForUdevInterfaceRename_def now)
qed

lemma waitForNetworkOnline_expired:
  assumes "timeout < 0 \<or> (timeout = 0 \<and> 0 < drift env (snd (timeNow env w)))"
  shows "fst (waitForNetworkOnline env (Some cfg) timeout w)
           = Inl (ErrorString ''timed out waiting for network to come online'')
         \<and> trace (snd (waitForNetworkOnline env (Some cfg) timeout w)) = trace w"
proof -
  obtain t w0 where now: "timeNow env w = (t, w0)" by (cases "timeNow env w")
  obtain t' w0' where now': "timeNow env w0 = (t', w0')" by (cases "timeNow env w0")
  show ?thesis
    using expired_at_once[OF assms now now'] onlineLoop_timeout[OF now', of "t + timeout" "devicesToCheck cfg"]
    by (simp add: waitForNetworkOnline_def now)
qed

lemma Apply_rename_failed:
  assumes "ValidateNetworkConfiguration env (Some cfg) = None"
    and "SetHostname env (hostnameOf cfg) w = (Inr (), w1)"
    and "UpdateEnvironment env (c_Proxy cfg) w1 = (Inr (), w2)"
    and "generateNetworkConfiguration env (Some cfg) w2 = (Inr (), w3)"
    and "waitForUdevInterfaceRename env (5 * Second) w3 = (Inl e, w4)"
  shows "ApplyNetworkConfiguration env (Some cfg) timeout w = (Inl e, w4)"
  using assms by (simp add: ApplyNetworkConfiguration_def andThen_def)

lemma Apply_online_wait:
  assumes "ValidateNetworkConfiguration env (Some cfg) = None"
    and "SetHostname env (hostnameOf cfg) w = (Inr (), w1)"
    and "UpdateEnvironment env (c_Proxy cfg) w1 = (Inr (), w2)"
    and "generateNetworkConfiguration env (Some cfg) w2 = (Inr (), w3)"
    and "waitForUdevInterfaceRename env (5 * Second) w3 = (Inr (), w4)"
    and "RestartUnit env ''systemd-networkd'' w4 = (Inr (), w5)"
    and "RestartUnit env ''systemd-timesyncd'' w5 = (Inr (), w6)"
  shows "ApplyNetworkConfiguration env (Some cfg) timeout w = waitForNetworkOnline env (Some cfg) timeout w6"
  using assms by (simp add: ApplyNetworkConfiguration_def andThen_def)

text \<open>
  Claim C6, as the code has it. Each polling loop is bounded by the timeout it is called
  with: it sleeps at most \<open>timeout / 500ms + 1\<close> times, and never for a negative
  timeout. A timeout that has expired when the loop first reads the clock (a negative
  timeout, or the timeout 0 once the clock has advanced) makes the loop return its timeout
  error without a polling pass: the trace is unchanged. Within \<open>ApplyNetworkConfiguration\<close> the rename wait is called with the constant
  five seconds, whatever the timeout of the request (its error is the result of the
  request), and the online wait is called with the timeout of the request.
\<close>

theorem polling_bound_law:
  "sleepCount (snd (waitForUdevInterfaceRename env timeout w))
     \<le> sleepCount w + (if timeout < 0 then 0 else nat (timeout div (500 * Millisecond)) + 1)
   \<and> sleepCount (snd (waitForNetworkOnline env (Some cfg) timeout w))
     \<le> sleepCount w + (if timeout < 0 then 0 else nat (timeout div (500 * Millisecond)) + 1)
   \<and> (timeout < 0 \<or> (timeout = 0 \<and> 0 < drift env (snd (timeNow env w)))
       \<longrightarrow> fst (waitForUdevInterfaceRename env timeout w)
             = Inl (ErrorString ''timed out waiting for udev to rename interface(s)'')
           \<and> trace (snd (waitForUdevInterfaceRename env timeout w)) = trace w
           \<and> fst (waitForNetworkOnline env (Some cfg) timeout w)
             = Inl (ErrorString ''timed out waiting for network to come online'')
           \<and> trace (snd (waitForNetworkOnline env (Some cfg) timeout w)) = trace w)
   \<and> (ValidateNetworkConfiguration env (Some cfg) = None
        \<and> SetHostname env (hostnameOf cfg) w = (Inr (), w1)
        \<and> UpdateEnvironment env (c_Proxy cfg) w1 = (Inr (), w2)
        \<and> generateNetworkConfiguration env (Some cfg) w2 = (Inr (), w3)
       \<longrightarrow> (waitForUdevInterfaceRename env (5 * Second) w3 = (Inl e, w4)
             \<longrightarrow> ApplyNetworkConfiguration env (Some cfg) timeout w = (Inl e, w4))
           \<and> (waitForUdevInterfaceRename env (5 * Second) w3 = (Inr (), w4)
               \<and> RestartUnit env ''systemd-networkd'' w4 = (Inr (), w5)
               \<and> RestartUnit env ''systemd-timesyncd'' w5 = (Inr (), w6)
             \<longrightarrow> ApplyNetworkConfiguration env (Some cfg) timeout w
                   = waitForNetworkOnline env (Some cfg) timeout w6))"
  using waitForUdevInterfaceRename_sleeps[of env timeout w] waitForNetworkOnline_sleeps[of env cfg timeout w]
    waitForUdevInterfaceRename_expired[of timeout env w] waitForNetworkOnline_expired[of timeout env w cfg]
    Apply_rename_failed[of env cfg w w1 w2 w3 e w4 timeout]
    Apply_online_wait[of env cfg w w1 w2 w3 w4 w5 w6 timeout]
  by blast

text \<open>
  The defining equations used to run the generator and the apply sequence on a scenario.
\<close>

lemmas generator_eval =
  generateLinkFileContents_def generateNetdevFileContents_def generateNetworkFileContents_def
  interfaceNetdevs_def bridgeNetdev_def vethNetdev_def mtuString_def interfaceNetworks_def
  userSideNetwork_def bridgeNetwork_def generateLinkSectionContents_def
  generateNetworkSectionContents_def processAddresses_def addressStep_def
  generateBridgeVLANContents_def bridgeVLANTags_def slices_Sort_def slices_Compact_def
  ToLower_def stripColons_def lowerChar_def FormatBool_def Let_def

lemmas effect_eval =
  ApplyNetworkConfiguration_def ValidateNetworkConfiguration_def hostnameOf_def SetHostname_def
  UpdateEnvironment_def RestartUnit_def generateNetworkConfiguration_def writeTimesync_def
  waitForUdevInterfaceRename_def waitForNetworkOnline_def devicesToCheck_def checkDevice_def
  isOnline_def hasAtLeastOneConfiguredIP_def andThen_def perform_def errorOf_def timeNow_def
  timeSleep_def Second_def Millisecond_def renameLoop.simps onlineLoop.simps

text \<open>
  Claim C6 as stated says that both loops are bounded by the timeout of the apply request
  and that the timeout 0 makes a loop fail at once, without a polling pass. In an apply
  request with the timeout 0, in an environment where the kernel log never shows a renamed
  interface, the rename wait polls and sleeps ten times and returns its timeout error
  after five seconds.
\<close>

theorem caller_timeout_counterexample:
  "fst (ApplyNetworkConfiguration envNoRename (Some scenarioA) 0 world0)
     = Inl (ErrorString ''timed out waiting for udev to rename interface(s)'')
   \<and> sleepCount (snd (ApplyNetworkConfiguration envNoRename (Some scenarioA) 0 world0)) = 10
   \<and> clock (snd (ApplyNetworkConfiguration envNoRename (Some scenarioA) 0 world0)) = 5000000012"
  by (simp add: effect_eval generator_eval envNoRename_def scenarioA_def world0_def sleepCount_def)

lemma result_collapse: "fst x = r \<Longrightarrow> x = (r, snd x)"
  by (cases x) simp

text \<open>
  The parts of the law on scenario A: the timeout \<open>-1\<close>, the bound of a one-second online
  wait, an apply request whose rename wait times out, and one that reaches the online wait.
\<close>

theorem polling_bound_law_witness:
  "fst (waitForUdevInterfaceRename envNoRename (- 1) world0)
     = Inl (ErrorString ''timed out waiting for udev to rename interface(s)'')
   \<and> trace (snd (waitForUdevInterfaceRename envNoRename (- 1) world0)) = []
   \<and> fst (waitForNetworkOnline envNoRename (Some scenarioA) (- 1) world0)
     = Inl (ErrorString ''timed out waiting for network to come online'')
   \<and> trace (snd (waitForNetworkOnline envNoRename (Some scenarioA) (- 1) world0)) = []
   \<and> sleepCount (snd (waitForNetworkOnline envDown (Some scenarioA) Second world0)) \<le> 3
   \<and> fst (ApplyNetworkConfiguration envNoRename (Some scenarioA) 0 world0)
     = Inl (ErrorString ''timed out waiting for udev to rename interface(s)'')
   \<and> ApplyNetworkConfiguration envDown (Some scenarioA) 0 world0
     = waitForNetworkOnline envDown (Some scenarioA) 0
         (snd (RestartUnit envDown ''systemd-timesyncd''
           (snd (RestartUnit envDown ''systemd-networkd''
             (snd (waitForUdevInterfaceRename envDown (5 * Second)
               (snd (generateNetworkConfiguration envDown (Some scenarioA)
                 \<lparr>clock = 0, trace = [EvSetHostname [], EvUpdateEnvironment ()]\<rparr>))))))))"
proof -
  let ?w1 = "\<lparr>clock = 0, trace = [EvSetHostname []]\<rparr> :: unit world"
  let ?w2 = "\<lparr>clock = 0, trace = [EvSetHostname [], EvUpdateEnvironment ()]\<rparr> :: unit world"
  txt \<open>A timeout that has expired before the first check.\<close>
  have neg: "(- 1 :: int) < 0 \<or> ((- 1 :: int) = 0 \<and> 0 < drift envNoRename (snd (timeNow envNoRename world0)))"
    by simp
  have a: "fst (waitForUdevInterfaceRename envNoRename (- 1) world0)
             = Inl (ErrorString ''timed out waiting for udev to rename interface(s)'')
           \<and> trace (snd (waitForUdevInterfaceRename envNoRename (- 1) world0)) = trace world0
           \<and> fst (waitForNetworkOnline envNoRename (Some scenarioA) (- 1) world0)
             = Inl (ErrorString ''timed out waiting for network to come online'')
           \<and> trace (snd (waitForNetworkOnline envNoRename (Some scenarioA) (- 1) world0)) = trace world0"
    using polling_bound_law[of envNoRename "- 1" world0 scenarioA] neg by blast
  txt \<open>The bound on the number of sleeps of a one-second wait.\<close>
  have b: "sleepCount (snd (waitForNetworkOnline envDown (Some scenarioA) Second world0))
             \<le> sleepCount world0 + (if Second < 0 then 0 else nat (Second div (500 * Millisecond)) + 1)"
    using polling_bound_law[of envDown Second world0 scenarioA] by blast
  txt \<open>The rename wait of an apply request with the timeout 0 runs for its five seconds.\<close>
  let ?n3 = "snd (generateNetworkConfiguration envNoRename (Some scenarioA) ?w2)"
  let ?n4 = "snd (waitForUdevInterfaceRename envNoRename (5 * Second) ?n3)"
  have n0: "ValidateNetworkConfiguration envNoRename (Some scenarioA) = None"
    by (simp add: ValidateNetworkConfiguration_def envNoRename_def)
  have n1: "SetHostname envNoRename (hostnameOf scenarioA) world0 = (Inr (), ?w1)"
    by (simp add: effect_eval envNoRename_def scenarioA_def world0_def)
  have n2: "UpdateEnvironment envNoRename (c_Proxy scenarioA) ?w1 = (Inr (), ?w2)"
    by (simp add: effect_eval envNoRename_def scenarioA_def)
  have n3: "generateNetworkConfiguration envNoRename (Some scenarioA) ?w2 = (Inr (), ?n3)"
    by (rule result_collapse) (simp add: effect_eval generator_eval envNoRename_def scenarioA_def)
  have n4: "waitForUdevInterfaceRename envNoRename (5 * Second) ?n3
              = (Inl (ErrorString ''timed out waiting for udev to rename interface(s)''), ?n4)"
    by (rule result_collapse) (simp add: effect_eval generator_eval envNoRename_def scenarioA_def)
  have c: "ApplyNetworkConfiguration envNoRename (Some scenarioA) 0 world0
             = (Inl (ErrorString ''timed out waiting for udev to rename interface(s)''), ?n4)"
    using polling_bound_law[of envNoRename 0 world0 scenarioA ?w1 ?w2 ?n3
        "ErrorString ''timed out waiting for udev to rename interface(s)''" ?n4] n0 n1 n2 n3 n4
    by blast
  txt \<open>The online wait of an apply request gets the timeout of the request.\<close>
  let ?d3 = "snd (generateNetworkConfiguration envDown (Some scenarioA) ?w2)"
  let ?d4 = "snd (waitForUdevInterfaceRename envDown (5 * Second) ?d3)"
  let ?d5 = "snd (RestartUnit envDown ''systemd-networkd'' ?d4)"
  let ?d6 = "snd (RestartUnit envDown ''systemd-timesyncd'' ?d5)"
  have d0: "ValidateNetworkConfiguration envDown (Some scenarioA) = None"
    by (simp add: ValidateNetworkConfiguration_def envDown_def)
  have d1: "SetHostname envDown (hostnameOf scenarioA) world0 = (Inr (), ?w1)"
    by (simp add: effect_eval envDown_def scenarioA_def world0_def)
  have d2: "UpdateEnvironment envDown (c_Proxy scenarioA) ?w1 = (Inr (), ?w2)"
    by (simp add: effect_eval envDown_def scenarioA_def)
  have d3: "generateNetworkConfiguration envDown (Some scenarioA) ?w2 = (Inr (), ?d3)"
    by (rule result_collapse) (simp add: effect_eval generator_eval envDown_def scenarioA_def)
  have d4: "waitForUdevInterfaceRename envDown (5 * Second) ?d3 = (Inr (), ?d4)"
    by (rule result_collapse) (simp add: effect_eval generator_eval envDown_def scenarioA_def)
  have d5: "RestartUnit envDown ''systemd-networkd'' ?d4 = (Inr (), ?d5)"
    by (rule result_collapse) (simp add: RestartUnit_def andThen_def perform_def envDown_def)
  have d6: "RestartUnit envDown ''systemd-timesyncd'' ?d5 = (Inr (), ?d6)"
    by (rule result_collapse) (simp add: RestartUnit_def andThen_def perform_def envDown_def)
  have d: "ApplyNetworkConfiguration envDown (Some scenarioA) 0 world0
             = waitForNetworkOnline envDown (Some scenarioA) 0 ?d6"
    using polling_bound_law[of envDown 0 world0 scenarioA ?w1 ?w2 ?d3 _ ?d4 ?d5 ?d6] d0 d1 d2 d3 d4 d5 d6
    by blast
  have b': "sleepCount (snd (waitForNetworkOnline envDown (Some scenarioA) Second world0)) \<le> 3"
    using b by (simp add: Second_def Millisecond_def world0_def sleepCount_def)
  show ?thesis
    using a b' c d by (simp add: world0_def)
qed

text \<open>
  Claim C9. When the validation of the configuration fails, \<open>ApplyNetworkConfiguration\<close>
  returns the error of the validation and the world is unchanged: no event has been
  performed (no hostname change, no update of the proxy environment, no file or
  directory written or removed, no command run, no unit restarted).
\<close>

theorem validation_failure_law:
  assumes "ValidateNetworkConfiguration env networkCfg = Some err"
  shows "ApplyNetworkConfiguration env networkCfg timeout w = (Inl err, w)
         \<and> trace (snd (ApplyNetworkConfiguration env networkCfg timeout w)) = trace w"
  using assms by (simp add: ApplyNetworkConfiguration_def)

text \<open>
  Scenario A with a validator that rejects it, and the \<open>nil\<close> configuration.
\<close>

theorem validation_failure_law_witness:
  "ValidateNetworkConfiguration envReject (Some scenarioA) = Some (ForeignError ''invalid VLAN parent'')
   \<and> ApplyNetworkConfiguration envReject (Some scenarioA) (60 * Second) world0
       = (Inl (ForeignError ''invalid VLAN parent''), world0)
   \<and> ValidateNetworkConfiguration envDown None = Some (ErrorString ''no network configuration provided'')
   \<and> ApplyNetworkConfiguration envDown None (60 * Second) world0
       = (Inl (ErrorString ''no network configuration provided''), world0)"
proof -
  have v: "ValidateNetworkConfiguration envReject (Some scenarioA) = Some (ForeignError ''invalid VLAN parent'')"
    by (simp add: ValidateNetworkConfiguration_def envReject_def envDown_def)
  have n: "ValidateNetworkConfiguration envDown None = Some (ErrorString ''no network configuration provided'')"
    by (simp add: ValidateNetworkConfiguration_def)
  show ?thesis
    using v n validation_failure_law[OF v, of "60 * Second" world0]
      validation_failure_law[OF n, of "60 * Second" world0]
    by simp
qed

text \<open>
  Claim C10. For a request whose method is not \<open>PUT\<close>, the handler sets the content type,
  renders \<open>NotImplemented\<close> and returns: the two channels are as before, and the body has
  not been given to the JSON decoder.
\<close>

theorem not_put_law:
  assumes "Method r \<noteq> ''PUT''"
  shows "apiSystem decodeAction quote s r
           = \<lparr>header = [(''Content-Type'', ''application/json'')], rendered = [NotImplemented None],
              state = s, bodyDecoded = False, panicked = False\<rparr>"
  using assms by (simp add: apiSystem_def)

text \<open>
  A \<open>GET\<close> request whose body asks for a reboot, and the same body sent with \<open>PUT\<close>.
\<close>

theorem not_put_law_witness:
  "''GET'' \<noteq> ''PUT''
   \<and> apiSystem (\<lambda>body. Inr ''reboot'') (\<lambda>a. a) \<lparr>TriggerShutdown = Open, TriggerReboot = Open\<rparr>
        \<lparr>Method = ''GET'', Body = ''{\"action\": \"reboot\"}''\<rparr>
       = \<lparr>header = [(''Content-Type'', ''application/json'')], rendered = [NotImplemented None],
          state = \<lparr>TriggerShutdown = Open, TriggerReboot = Open\<rparr>, bodyDecoded = False, panicked = False\<rparr>
   \<and> apiSystem (\<lambda>body. Inr ''reboot'') (\<lambda>a. a) \<lparr>TriggerShutdown = Open, TriggerReboot = Open\<rparr>
        \<lparr>Method = ''PUT'', Body = ''{\"action\": \"reboot\"}''\<rparr>
       = \<lparr>header = [(''Content-Type'', ''application/json'')], rendered = [EmptySyncResponse],
          state = \<lparr>TriggerShutdown = Open, TriggerReboot = Closed\<rparr>, bodyDecoded = True, panicked = False\<rparr>"
proof -
  have m: "Method \<lparr>Method = ''GET'', Body = ''{\"action\": \"reboot\"}''\<rparr> \<noteq> ''PUT''"
    by simp
  show ?thesis
    using not_put_law[OF m, of "\<lambda>body. Inr ''reboot''" "\<lambda>a. a" "\<lparr>TriggerShutdown = Open, TriggerReboot = Open\<rparr>"]
    by (simp add: apiSystem_def closeChan_def)
qed

end
